theory Spec2Isabelle
  imports Main
begin

text \<open>
  A shallow embedding of the Solar Events application: the client (\<open>App.jsx\<close>: the public
  year search, the admin view and its event editor) and the admin API server
  (\<open>admin.js\<close>: login, admin accounts, events). Each handler is a function of the state it
  reads and returns the state it writes; a handler that awaits network calls is a process
  of requests and continuations. The first part holds the definitions, each next to the
  code it translates; the second part holds the properties.
\<close>

section \<open>JavaScript values used by the client and the server\<close>

text \<open>
  Strings are lists of characters. The code only inspects ASCII digits, the separators
  \<open>/\<close> and \<open>-\<close>, and white space; \<open>String.prototype.trim\<close> removes white space and line
  terminators from both ends (within the 8-bit range: TAB, LF, VT, FF, CR, SPACE, NBSP).
  A JavaScript value that may be \<open>undefined\<close> or \<open>null\<close> is an \<open>option\<close>.
\<close>

definition is_digit :: "char \<Rightarrow> bool" where
  "is_digit c = (c \<in> set ''0123456789'')"

definition is_space :: "char \<Rightarrow> bool" where
  "is_space c = (c \<in> set [CHR 0x09, CHR 0x0A, CHR 0x0B, CHR 0x0C, CHR 0x0D, CHR 0x20, CHR 0xA0])"

definition js_trim :: "string \<Rightarrow> string" where
  "js_trim s = rev (dropWhile is_space (rev (dropWhile is_space s)))"

text \<open>\<open>s.split(sep)\<close> for a one-character separator: never empty, \<open>''''.split(sep) = ['''']\<close>.\<close>

fun js_split :: "char \<Rightarrow> string \<Rightarrow> string list" where
  "js_split sep [] = [[]]"
| "js_split sep (c # cs) =
     (if c = sep then [] # js_split sep cs
      else (case js_split sep cs of
              [] \<Rightarrow> [[c]]
            | w # ws \<Rightarrow> (c # w) # ws))"

text \<open>Array destructuring \<open>[a, b, c] = parts\<close>: a missing position is \<open>undefined\<close>.\<close>

definition js_nth :: "'a list \<Rightarrow> nat \<Rightarrow> 'a option" where
  "js_nth xs i = (if i < length xs then Some (xs ! i) else None)"

text \<open>Truthiness of a possibly undefined string: defined and not empty.\<close>

definition truthy :: "string option \<Rightarrow> bool" where
  "truthy v = (case v of None \<Rightarrow> False | Some s \<Rightarrow> s \<noteq> [])"

text \<open>\<open>v || ''''\<close> on a possibly undefined string.\<close>

definition or_empty :: "string option \<Rightarrow> string" where
  "or_empty v = (case v of None \<Rightarrow> [] | Some s \<Rightarrow> s)"

text \<open>\<open>v || null\<close> on a possibly undefined string: the empty string becomes \<open>null\<close> too.\<close>

definition or_null :: "string option \<Rightarrow> string option" where
  "or_null v = (if truthy v then v else None)"

text \<open>A template literal prints an undefined value as the text \<open>undefined\<close>.\<close>

definition js_str :: "string option \<Rightarrow> string" where
  "js_str v = (case v of None \<Rightarrow> ''undefined'' | Some s \<Rightarrow> s)"


section \<open>Media items of the event editor\<close>

text \<open>
  A media item is a plain object. A persisted item (a row of \<open>media_assets\<close>) has
  \<open>id\<close>, \<open>url\<close> and \<open>caption\<close>; a queued item is built by \<open>uploadAddArticle\<close> as
  \<open>{ localId, file, previewUrl, caption }\<close> and has no \<open>id\<close>.
\<close>

record media_item =
  m_id :: "nat option"
  localId :: "string option"
  m_url :: "string option"
  previewUrl :: "string option"
  m_file :: "string option"
  caption :: "string option"

subsection \<open>Deleting a media item\<close>

text \<open>
  Edit mode, \<open>confirmDeleteMedia\<close> after the remote delete succeeded:
  \<^verbatim>\<open>
  setEventMedia((prev) => {
    const next = prev.filter((m) => m.id !== mediaDeleteTarget.id);
    if (next.length === 0) { setEventMediaIndex(0); }
    else { setEventMediaIndex((idx) => (idx >= next.length ? next.length - 1 : idx)); }
    return next;
  });
  \<close>
  The updater is a function of the previous list and the previous index.
\<close>

definition confirmDeleteMedia_update ::
  "media_item \<Rightarrow> media_item list \<Rightarrow> int \<Rightarrow> media_item list \<times> int" where
  "confirmDeleteMedia_update mediaDeleteTarget prev idx =
     (let next = filter (\<lambda>m. m_id m \<noteq> m_id mediaDeleteTarget) prev
      in (next,
          if length next = 0 then 0
          else (if idx \<ge> int (length next) then int (length next) - 1 else idx)))"

text \<open>
  Create mode, \<open>onDeleteMedia\<close>:
  \<^verbatim>\<open>
  setCreateQueuedMedia((prev) => {
    const next = prev.filter((m) => m.localId !== item.localId);
    if (item.previewUrl) URL.revokeObjectURL(item.previewUrl);
    setCreateMediaIndex((idx) => next.length ? Math.min(idx, next.length - 1) : 0);
    return next;
  });
  \<close>
  The third component is the preview URL handed to \<open>URL.revokeObjectURL\<close>, if any.
\<close>

definition onDeleteMedia_update ::
  "media_item \<Rightarrow> media_item list \<Rightarrow> int \<Rightarrow> media_item list \<times> int \<times> string option" where
  "onDeleteMedia_update item prev idx =
     (let next = filter (\<lambda>m. localId m \<noteq> localId item) prev
      in (next,
          if length next \<noteq> 0 then min idx (int (length next) - 1) else 0,
          if truthy (previewUrl item) then previewUrl item else None))"


section \<open>The event form of the editor\<close>

subsection \<open>Date input shaping\<close>

text \<open>\<open>s.replace(/\D/g, '')\<close> keeps the ASCII digits of \<open>s\<close>.\<close>

definition digits_of :: "string \<Rightarrow> string" where
  "digits_of s = filter is_digit s"

text \<open>\<open>s.slice(a, b)\<close> for \<open>0 \<le> a \<le> b\<close>.\<close>

definition js_slice :: "string \<Rightarrow> nat \<Rightarrow> nat \<Rightarrow> string" where
  "js_slice s a b = take (b - a) (drop a s)"

text \<open>
  The tail of \<open>handleDateInputChange\<close>:
  \<^verbatim>\<open>
  const mm = digits.slice(0, 2); const dd = digits.slice(2, 4); const yyyy = digits.slice(4, 8);
  let formatted = '';
  if (mm) formatted = mm;
  if (dd) formatted += (formatted ? '/' : '') + dd;
  if (yyyy) formatted += (formatted ? '/' : '') + yyyy;
  \<close>
\<close>

definition segment_date :: "string \<Rightarrow> string" where
  "segment_date digits =
     (let mm = js_slice digits 0 2;
          dd = js_slice digits 2 4;
          yyyy = js_slice digits 4 8;
          formatted = [];
          formatted = (if mm \<noteq> [] then mm else formatted);
          formatted = (if dd \<noteq> [] then formatted @ (if formatted \<noteq> [] then ''/'' else []) @ dd
                       else formatted);
          formatted = (if yyyy \<noteq> [] then formatted @ (if formatted \<noteq> [] then ''/'' else []) @ yyyy
                       else formatted)
      in formatted)"

text \<open>
  \<open>handleDateInputChange(raw)\<close> with \<open>previous = form.date || ''\<close>; the result is the new
  value of \<open>form.date\<close>.
\<close>

definition handleDateInputChange :: "string \<Rightarrow> string \<Rightarrow> string" where
  "handleDateInputChange previous raw =
     (let prevDigits = digits_of previous;
          digits = digits_of raw
      in if length prevDigits \<ge> 8 \<and> length digits > length prevDigits then previous
         else (let digits = (if length digits > 8 then js_slice digits 0 8 else digits)
               in segment_date digits))"

subsection \<open>Validation of the date\<close>

text \<open>The regular expression \<open>/^\d{2}\/\d{2}\/\d{4}$/\<close>.\<close>

fun date_pattern :: "string \<Rightarrow> bool" where
  "date_pattern [m1, m2, s1, d1, d2, s2, y1, y2, y3, y4] =
     (is_digit m1 \<and> is_digit m2 \<and> s1 = CHR ''/'' \<and> is_digit d1 \<and> is_digit d2 \<and>
      s2 = CHR ''/'' \<and> is_digit y1 \<and> is_digit y2 \<and> is_digit y3 \<and> is_digit y4)"
| "date_pattern _ = False"

text \<open>\<open>isValidDate = (val) => /^\d{2}\/\d{2}\/\d{4}$/.test((val || '').trim())\<close>.\<close>

definition isValidDate :: "string \<Rightarrow> bool" where
  "isValidDate val = date_pattern (js_trim val)"

subsection \<open>Display form and storage form of the date\<close>

text \<open>
  \<open>handleSaveEvent\<close> builds the storage form (\<open>null\<close> is \<open>None\<close>):
  \<^verbatim>\<open>
  let isoDate = null;
  if (eventForm.date && eventForm.date.length === 10) {
    const [mm, dd, yyyy] = eventForm.date.split('/');
    if (mm && dd && yyyy && yyyy.length === 4) { isoDate = `${yyyy}-${mm}-${dd}`; }
  }
  \<close>
\<close>

definition isoDate :: "string \<Rightarrow> string option" where
  "isoDate formDate =
     (if formDate \<noteq> [] \<and> length formDate = 10 then
        (let parts = js_split CHR ''/'' formDate;
             mm = js_nth parts 0; dd = js_nth parts 1; yyyy = js_nth parts 2
         in if truthy mm \<and> truthy dd \<and> truthy yyyy \<and> length (or_empty yyyy) = 4
            then Some (js_str yyyy @ ''-'' @ js_str mm @ ''-'' @ js_str dd)
            else None)
      else None)"

text \<open>
  \<open>openEventModal\<close> builds the display form from the event's \<open>event_date\<close>:
  \<^verbatim>\<open>
  const iso = evt.event_date ? String(evt.event_date).slice(0, 10) : '';
  let displayDate = '';
  if (iso) { const [yyyy, mm, dd] = iso.split('-'); displayDate = `${mm}/${dd}/${yyyy}`; }
  \<close>
\<close>

definition displayDate :: "string option \<Rightarrow> string" where
  "displayDate event_date =
     (let iso = (if truthy event_date then js_slice (js_str event_date) 0 10 else [])
      in if iso \<noteq> [] then
           (let parts = js_split CHR ''-'' iso;
                yyyy = js_nth parts 0; mm = js_nth parts 1; dd = js_nth parts 2
            in js_str mm @ ''/'' @ js_str dd @ ''/'' @ js_str yyyy)
         else [])"

text \<open>The shape \<open>YYYY-MM-DD\<close> of a stored calendar day, used to state the round trip.\<close>

fun iso_pattern :: "string \<Rightarrow> bool" where
  "iso_pattern [y1, y2, y3, y4, s1, m1, m2, s2, d1, d2] =
     (is_digit y1 \<and> is_digit y2 \<and> is_digit y3 \<and> is_digit y4 \<and> s1 = CHR ''-'' \<and>
      is_digit m1 \<and> is_digit m2 \<and> s2 = CHR ''-'' \<and> is_digit d1 \<and> is_digit d2)"
| "iso_pattern _ = False"


section \<open>Year search of the public timeline\<close>

text \<open>
  \<open>YEARS\<close> holds the distinct values of \<open>extractYear(row.event_date)\<close>, sorted with
  \<open>(a, b) => Number(a) - Number(b)\<close>. \<open>extractYear\<close> returns \<open>String(d.getUTCFullYear())\<close>,
  or the empty string for a missing or unparsable date. An entry is therefore the decimal
  text of an integer, modelled as \<open>Some\<close> of that integer, or the empty string, modelled
  as \<open>None\<close>. \<open>String\<close> is injective on integers and never yields the empty string, so
  \<open>y === String(num)\<close> is \<open>y = Some num\<close>; \<open>Number('''')\<close> is 0.
\<close>

type_synonym year_key = "int option"

definition js_Number :: "year_key \<Rightarrow> int" where
  "js_Number y = (case y of None \<Rightarrow> 0 | Some n \<Rightarrow> n)"

text \<open>\<open>/^\d{4}$/.test(trimmed)\<close> and \<open>parseInt(trimmed, 10)\<close> on such a string.\<close>

definition isFourDigits :: "string \<Rightarrow> bool" where
  "isFourDigits trimmed = (length trimmed = 4 \<and> list_all is_digit trimmed)"

definition digit_value :: "char \<Rightarrow> int" where
  "digit_value c = int (of_char c) - 48"

definition parseInt :: "string \<Rightarrow> int" where
  "parseInt s = foldl (\<lambda>acc c. 10 * acc + digit_value c) 0 s"

text \<open>
  The messages are kept structured: \<open>ShowingClosest t c\<close> is the text
  \<open>No events for ${t}. Showing closest year: ${c}.\<close>
\<close>

datatype search_error = NoSearchError | EnterFourDigitYear | EventsStillLoading

datatype search_info = NoSearchInfo | ShowingClosest int year_key

record search_state =
  searchError :: search_error
  searchInfo :: search_info
  view :: string
  menuOpen :: bool
  scrollToYear :: "year_key option"

text \<open>
  \<^verbatim>\<open>
  YEARS.forEach((y) => { if (y === targetYear) { hasExact = true; closest = y; } });
  \<close>
  as a fold over the pair \<open>(closest, hasExact)\<close>, and
  \<^verbatim>\<open>
  closest = YEARS.reduce((prev, curr) => {
    const diffPrev = Math.abs(Number(prev) - num);
    const diffCurr = Math.abs(Number(curr) - num);
    return diffCurr < diffPrev ? curr : prev;
  }, YEARS[0]);
  \<close>
\<close>

definition exact_step :: "int \<Rightarrow> year_key \<times> bool \<Rightarrow> year_key \<Rightarrow> year_key \<times> bool" where
  "exact_step num acc y = (if y = Some num then (y, True) else acc)"

definition closer_step :: "int \<Rightarrow> year_key \<Rightarrow> year_key \<Rightarrow> year_key" where
  "closer_step num prev cur =
     (let diffPrev = \<bar>js_Number prev - num\<bar>;
          diffCurr = \<bar>js_Number cur - num\<bar>
      in if diffCurr < diffPrev then cur else prev)"

definition handleYearSearchSubmit :: "string \<Rightarrow> year_key list \<Rightarrow> search_state \<Rightarrow> search_state" where
  "handleYearSearchSubmit yearQuery YEARS st =
     (let trimmed = js_trim yearQuery in
      if \<not> isFourDigits trimmed then
        st\<lparr>searchError := EnterFourDigitYear, searchInfo := NoSearchInfo,
           view := ''home'', menuOpen := False\<rparr>
      else if length YEARS = 0 then
        st\<lparr>searchError := EventsStillLoading, searchInfo := NoSearchInfo\<rparr>
      else
        (let num = parseInt trimmed;
             (closest, hasExact) = foldl (exact_step num) (hd YEARS, False) YEARS
         in if \<not> hasExact then
              (let closest = foldl (closer_step num) (hd YEARS) YEARS
               in st\<lparr>searchError := NoSearchError, searchInfo := ShowingClosest num closest,
                     view := ''home'', menuOpen := False, scrollToYear := Some closest\<rparr>)
            else
              st\<lparr>searchError := NoSearchError, searchInfo := NoSearchInfo,
                 view := ''home'', menuOpen := False, scrollToYear := Some closest\<rparr>))"


section \<open>The admin API server\<close>

text \<open>
  A handler is a function of the request and the table it queries, and returns the HTTP
  status with the JSON body, and the table after its statements. The queries run on the
  table as a list of rows; the \<open>catch\<close> branches that answer 500 when the driver throws are
  modelled where a constraint of the table makes a statement fail. \<open>bcrypt.compare\<close> and
  \<open>bcrypt.hash\<close> are parameters of the handlers that call them.
\<close>

datatype body =
    ErrorBody string
  | SecurityAnswerRequired nat "string option"
  | LoginSuccess nat string bool "nat option"
  | Success
  | Created nat

type_synonym http_response = "nat \<times> body"

subsection \<open>Admin accounts\<close>

text \<open>A row of \<open>admin_users\<close>; \<open>is_protected\<close> is a \<open>tinyint\<close>, read as a number.\<close>

record admin_user =
  u_id :: nat
  username :: string
  password_hash :: string
  is_protected :: int
  security_question_id :: "nat option"
  security_answer_hash :: "string option"

text \<open>The body of \<open>POST /api/admin/login\<close>: \<open>{ username, password, securityAnswer }\<close>.\<close>

record login_body =
  l_username :: "string option"
  l_password :: "string option"
  l_securityAnswer :: "string option"

text \<open>\<open>id || null\<close> on a possibly null number: 0 is falsy.\<close>

definition id_or_null :: "nat option \<Rightarrow> nat option" where
  "id_or_null v = (case v of None \<Rightarrow> None | Some n \<Rightarrow> if n = 0 then None else Some n)"

text \<open>
  \<open>POST /api/admin/login\<close>. The \<open>SELECT ... WHERE u.username = ? LIMIT 1\<close> is the first row
  with that user name; \<open>question_text\<close> gives the text joined from \<open>security_questions\<close>.
\<close>

definition post_login ::
  "(string \<Rightarrow> string \<Rightarrow> bool) \<Rightarrow> (nat \<Rightarrow> string option) \<Rightarrow> admin_user list \<Rightarrow> login_body
     \<Rightarrow> http_response" where
  "post_login bcrypt_compare question_text admin_users req =
     (if \<not> truthy (l_username req) \<or> \<not> truthy (l_password req) then
        (400, ErrorBody ''Username and password are required.'')
      else
        (case find (\<lambda>u. username u = or_empty (l_username req)) admin_users of
           None \<Rightarrow> (401, ErrorBody ''Invalid username or password.'')
         | Some user \<Rightarrow>
             if \<not> bcrypt_compare (or_empty (l_password req)) (password_hash user) then
               (401, ErrorBody ''Invalid username or password.'')
             else
               (let requiresSecurity =
                      (is_protected user = 0 \<and> security_question_id user \<noteq> None);
                    success = (200, LoginSuccess (u_id user) (username user)
                                 (is_protected user \<noteq> 0) (id_or_null (security_question_id user)))
                in if requiresSecurity then
                     (if \<not> truthy (l_securityAnswer req) then
                        (400, SecurityAnswerRequired
                                (case security_question_id user of Some q \<Rightarrow> q | None \<Rightarrow> 0)
                                (case security_question_id user of
                                   Some q \<Rightarrow> question_text q | None \<Rightarrow> None))
                      else if \<not> bcrypt_compare (or_empty (l_securityAnswer req))
                                  (or_empty (security_answer_hash user)) then
                        (401, ErrorBody ''Incorrect security answer.'')
                      else success)
                   else success)))"

text \<open>
  The body of the two account updates: \<open>{ userId, password, securityQuestionId,
  securityAnswer }\<close>. \<open>securityQuestionId\<close> is tested with \<open>typeof ... !== 'undefined'\<close>: the
  outer \<open>option\<close> says whether the field is present, the inner one whether it is null.
\<close>

record account_body =
  a_userId :: "nat option"
  a_password :: "string option"
  a_securityQuestionId :: "nat option option"
  a_securityAnswer :: "string option"

datatype field_update =
    SetPasswordHash string
  | SetSecurityQuestionId "nat option"
  | SetSecurityAnswerHash string

text \<open>
  The dynamic \<open>UPDATE\<close> built by \<open>PUT /api/admin/users/:id\<close> and, with the same text, by
  \<open>PUT /api/admin/profile\<close>:
  \<^verbatim>\<open>
  if (password && password.trim()) { fields.push('password_hash = ?'); values.push(hash) }
  if (typeof securityQuestionId !== 'undefined') { ...; values.push(securityQuestionId || null) }
  if (securityAnswer && securityAnswer.trim()) { fields.push('security_answer_hash = ?'); ... }
  \<close>
\<close>

definition build_fields :: "(string \<Rightarrow> string) \<Rightarrow> account_body \<Rightarrow> field_update list" where
  "build_fields bcrypt_hash req =
     (if truthy (a_password req) \<and> js_trim (or_empty (a_password req)) \<noteq> []
      then [SetPasswordHash (bcrypt_hash (js_trim (or_empty (a_password req))))] else []) @
     (case a_securityQuestionId req of
        None \<Rightarrow> []
      | Some q \<Rightarrow> [SetSecurityQuestionId (id_or_null q)]) @
     (if truthy (a_securityAnswer req) \<and> js_trim (or_empty (a_securityAnswer req)) \<noteq> []
      then [SetSecurityAnswerHash (bcrypt_hash (js_trim (or_empty (a_securityAnswer req))))]
      else [])"

fun apply_field :: "admin_user \<Rightarrow> field_update \<Rightarrow> admin_user" where
  "apply_field u (SetPasswordHash h) = u\<lparr>password_hash := h\<rparr>"
| "apply_field u (SetSecurityQuestionId q) = u\<lparr>security_question_id := q\<rparr>"
| "apply_field u (SetSecurityAnswerHash h) = u\<lparr>security_answer_hash := Some h\<rparr>"

text \<open>\<open>UPDATE admin_users SET ... WHERE id = ?\<close> and \<open>DELETE FROM admin_users WHERE id = ?\<close>.\<close>

definition update_admin_user :: "admin_user list \<Rightarrow> nat \<Rightarrow> field_update list \<Rightarrow> admin_user list" where
  "update_admin_user admin_users userId flds =
     map (\<lambda>u. if u_id u = userId then foldl apply_field u flds else u) admin_users"

definition delete_admin_user :: "admin_user list \<Rightarrow> nat \<Rightarrow> admin_user list" where
  "delete_admin_user admin_users userId = filter (\<lambda>u. u_id u \<noteq> userId) admin_users"

text \<open>
  \<open>PUT /api/admin/users/:id\<close>. The handler's last test, \<open>result.affectedRows === 0\<close>, cannot
  hold here: the row was found by the \<open>SELECT\<close> and the \<open>UPDATE\<close> matches it. The same
  goes for the other two handlers.
\<close>

definition put_user ::
  "(string \<Rightarrow> string) \<Rightarrow> admin_user list \<Rightarrow> nat \<Rightarrow> account_body
     \<Rightarrow> http_response \<times> admin_user list" where
  "put_user bcrypt_hash admin_users userId req =
     (let existingRows = filter (\<lambda>u. u_id u = userId) admin_users
      in if existingRows = [] then ((404, ErrorBody ''Admin user not found.''), admin_users)
         else if is_protected (hd existingRows) = 1 then
           ((403, ErrorBody ''This account is protected and cannot be edited.''), admin_users)
         else
           (let flds = build_fields bcrypt_hash req
            in if flds = [] then
                 ((400, ErrorBody ''No changes provided to update this user.''), admin_users)
               else ((200, Success), update_admin_user admin_users userId flds)))"

text \<open>\<open>DELETE /api/admin/users/:id\<close>.\<close>

definition delete_user :: "admin_user list \<Rightarrow> nat \<Rightarrow> http_response \<times> admin_user list" where
  "delete_user admin_users userId =
     (let existingRows = filter (\<lambda>u. u_id u = userId) admin_users
      in if existingRows = [] then ((404, ErrorBody ''Admin user not found.''), admin_users)
         else if is_protected (hd existingRows) = 1 then
           ((403, ErrorBody ''This account is protected and cannot be deleted.''), admin_users)
         else ((200, Success), delete_admin_user admin_users userId))"

text \<open>
  \<open>PUT /api/admin/profile\<close>. The handler selects \<open>is_protected\<close> of the row, and uses the
  result only to answer 404 when there is no row.
\<close>

definition put_profile ::
  "(string \<Rightarrow> string) \<Rightarrow> admin_user list \<Rightarrow> account_body \<Rightarrow> http_response \<times> admin_user list" where
  "put_profile bcrypt_hash admin_users req =
     (case id_or_null (a_userId req) of
        None \<Rightarrow> ((400, ErrorBody ''userId is required.''), admin_users)
      | Some userId \<Rightarrow>
          (let existingRows = filter (\<lambda>u. u_id u = userId) admin_users
           in if existingRows = [] then ((404, ErrorBody ''Admin user not found.''), admin_users)
              else
                (let flds = build_fields bcrypt_hash req
                 in if flds = [] then
                      ((400, ErrorBody ''No profile changes provided.''), admin_users)
                    else ((200, Success), update_admin_user admin_users userId flds))))"

subsection \<open>Events\<close>

text \<open>
  The JSON object the editor sends and the server destructures: \<open>{ event_date, event_type,
  location, title, short_description, summary, impact_on_communication }\<close>; a field that
  is absent or null is \<open>None\<close>. The same seven values are the columns of a row of
  \<open>solar_events\<close> next to its \<open>id\<close>.
\<close>

record event_payload =
  p_event_date :: "string option"
  p_event_type :: "string option"
  p_location :: "string option"
  p_title :: "string option"
  p_short_description :: "string option"
  p_summary :: "string option"
  p_impact_on_communication :: "string option"









section \<open>The event editor\<close>

subsection \<open>The modal: validation, primary save, caption state\<close>

text \<open>
  \<open>eventForm\<close>: the seven fields of the form, all strings (\<open>openAddEventModal\<close> sets them to
  the empty string, \<open>openEventModal\<close> to the event's value \<open>|| ''\<close>).
\<close>

record event_form =
  date :: string
  event_type :: string
  location :: string
  title :: string
  short_description :: string
  summary :: string
  impact_on_communication :: string

text \<open>\<open>eventErrors\<close>: one message per field, empty when the field has no error.\<close>

record event_errors =
  err_date :: string
  err_event_type :: string
  err_location :: string
  err_title :: string
  err_short_description :: string
  err_summary :: string
  err_impact_on_communication :: string

definition required_msg :: string where
  "required_msg = ''* Required field missing''"

text \<open>
  \<open>validateEventForm\<close> returns the errors it passes to \<open>setEventErrors\<close> and its boolean
  result \<open>!Object.values(next).some(Boolean)\<close>.
\<close>

definition validateEventForm :: "event_form \<Rightarrow> event_errors \<times> bool" where
  "validateEventForm form =
     (let next =
        \<lparr>err_date = (if \<not> isValidDate (date form) then required_msg else []),
         err_event_type = (if js_trim (event_type form) = [] then required_msg else []),
         err_location = (if js_trim (location form) = [] then required_msg else []),
         err_title = (if js_trim (title form) = [] then required_msg else []),
         err_short_description =
           (if js_trim (short_description form) = [] then required_msg else []),
         err_summary = (if js_trim (summary form) = [] then required_msg else []),
         err_impact_on_communication =
           (if js_trim (impact_on_communication form) = [] then required_msg else [])\<rparr>
      in (next,
          \<not> (err_date next \<noteq> [] \<or> err_event_type next \<noteq> [] \<or> err_location next \<noteq> [] \<or>
             err_title next \<noteq> [] \<or> err_short_description next \<noteq> [] \<or>
             err_summary next \<noteq> [] \<or> err_impact_on_communication next \<noteq> [])))"

text \<open>The state hooks of \<open>AdminEventModal\<close>.\<close>

record modal_state =
  eventTriedSubmit :: bool
  eventErrors :: event_errors
  captionEditing :: bool
  captionDraft :: string

text \<open>
  \<^verbatim>\<open>
  const handlePrimarySaveClick = () => {
    setEventTriedSubmit(true);
    const ok = validateEventForm();
    if (!ok) return;
    onSave?.();
  };
  \<close>
  The result is the modal's new state and whether \<open>onSave\<close> is called.
\<close>

definition handlePrimarySaveClick :: "modal_state \<Rightarrow> event_form \<Rightarrow> modal_state \<times> bool" where
  "handlePrimarySaveClick ms form =
     (let ms = ms\<lparr>eventTriedSubmit := True\<rparr>;
          (next, ok) = validateEventForm form;
          ms = ms\<lparr>eventErrors := next\<rparr>
      in if \<not> ok then (ms, False) else (ms, True))"

text \<open>
  \<^verbatim>\<open>
  const hasMedia = Array.isArray(media) && media.length > 0;
  const safeIndex = hasMedia ? Math.min(mediaIndex ?? 0, media.length - 1) : 0;
  const currentMedia = hasMedia ? media[safeIndex] : null;
  \<close>
  Reading an array at a negative index gives \<open>undefined\<close>.
\<close>

definition safeIndex :: "media_item list \<Rightarrow> int \<Rightarrow> int" where
  "safeIndex media mediaIndex =
     (if length media > 0 then min mediaIndex (int (length media) - 1) else 0)"

definition currentMedia :: "media_item list \<Rightarrow> int \<Rightarrow> media_item option" where
  "currentMedia media mediaIndex =
     (if length media > 0 then
        (if 0 \<le> safeIndex media mediaIndex then Some (media ! nat (safeIndex media mediaIndex))
         else None)
      else None)"

text \<open>
  \<^verbatim>\<open>
  // When switching images, reset caption editing/draft
  useEffect(() => {
    setCaptionEditing(false);
    setCaptionDraft(currentMedia?.caption || '');
  }, [currentMedia?.id]);
  \<close>
  After the first render React runs the effect of a render only when the dependency
  \<open>currentMedia?.id\<close> differs from the one of the previous render.
\<close>

definition effect_dep :: "media_item option \<Rightarrow> nat option" where
  "effect_dep cm = (case cm of None \<Rightarrow> None | Some m \<Rightarrow> m_id m)"

definition caption_reset_effect :: "media_item option \<Rightarrow> modal_state \<Rightarrow> modal_state" where
  "caption_reset_effect cm ms =
     ms\<lparr>captionEditing := False,
        captionDraft := or_empty (case cm of None \<Rightarrow> None | Some m \<Rightarrow> caption m)\<rparr>"

text \<open>
  A render in which the list and the index may have changed: \<open>prevMedia\<close>, \<open>prevIndex\<close> are
  those of the previous render.
\<close>

definition rerender ::
  "media_item list \<Rightarrow> int \<Rightarrow> media_item list \<Rightarrow> int \<Rightarrow> modal_state \<Rightarrow> modal_state" where
  "rerender prevMedia prevIndex media mediaIndex ms =
     (if effect_dep (currentMedia media mediaIndex) \<noteq> effect_dep (currentMedia prevMedia prevIndex)
      then caption_reset_effect (currentMedia media mediaIndex) ms
      else ms)"

subsection \<open>Network calls of a handler\<close>

text \<open>
  What a handler sees of a response: \<open>res.ok\<close>, \<open>res.status\<close>, \<open>data?.id\<close>, the error text
  \<open>(data.error || data.details)\<close> or the body when it is a string, and the rows when the
  body is an array. An \<open>await\<close> that throws (the request fails, the body does not parse)
  is \<open>Rejected\<close> with the error's message.
\<close>

record response =
  res_ok :: bool
  res_status :: nat
  res_id :: "nat option"
  res_text :: "string option"
  res_rows :: "(nat \<times> event_payload) list option"

datatype fetch_result = Rejected string | Resolved response

datatype request =
    PostEvent event_payload
  | PutEvent nat event_payload
  | PostEventMedia nat "string option" string
  | GetAdminEvents

text \<open>
  An \<open>async\<close> function is a process that either is done with a value, or issues a request
  and continues with its result: the code after an \<open>await fetch(...)\<close> is the continuation,
  so a later request exists only once the earlier one has been answered.
\<close>

datatype 'a proc = Done 'a | Fetch request "fetch_result \<Rightarrow> 'a proc"

primrec proc_bind :: "'a proc \<Rightarrow> ('a \<Rightarrow> 'b proc) \<Rightarrow> 'b proc" where
  "proc_bind (Done a) f = f a"
| "proc_bind (Fetch q k) f = Fetch q (\<lambda>r. proc_bind (k r) f)"

text \<open>
  Running a process against the answers that have arrived so far gives the requests it
  has issued, and its value if it is done (\<open>None\<close> while it waits for an answer).
\<close>

fun run :: "'a proc \<Rightarrow> fetch_result list \<Rightarrow> request list \<times> 'a option" where
  "run (Done a) rs = ([], Some a)"
| "run (Fetch q k) [] = ([q], None)"
| "run (Fetch q k) (r # rs) = (case run (k r) rs of (qs, a) \<Rightarrow> (q # qs, a))"

subsection \<open>The admin view: saving an event\<close>

text \<open>
  \<open>alert(...)\<close> messages, kept structured: \<open>HttpStatusError s\<close> is \<open>HTTP ${s}\<close>,
  \<open>MediaUploadFailed s\<close> is \<open>Media upload failed (HTTP ${s})\<close>.
\<close>

datatype alert =
    RequiredFieldsAlert
  | ErrorText string
  | HttpStatusError nat
  | MediaUploadFailed nat
  | SaveFailedDefault

text \<open>
  The state of \<open>AdminView\<close> that saving reads or writes. \<open>editingEvent\<close> is the id of the
  event being edited; \<open>alerts\<close> and \<open>revoked\<close> record the calls of \<open>alert\<close> and of
  \<open>URL.revokeObjectURL\<close>. The error texts and dialog flags that \<open>closeEventModal\<close> also
  clears (\<open>eventMediaError\<close>, \<open>newMediaUrl\<close>, \<open>newMediaCaption\<close>, \<open>addArticleOpen\<close>,
  \<open>mediaUploadError\<close>, \<open>mediaUploadBusy\<close>, \<open>mediaDeleteOpen\<close>, \<open>mediaDeleteTarget\<close>) are left out.
\<close>

record admin_state =
  eventModalOpen :: bool
  isCreatingEvent :: bool
  editingEvent :: "nat option"
  eventForm :: event_form
  eventMedia :: "media_item list"
  eventMediaIndex :: int
  createQueuedMedia :: "media_item list"
  createMediaIndex :: int
  eventSaving :: bool
  createMediaUploading :: bool
  createMediaUploadingText :: "(nat \<times> nat) option"
  adminEvents :: "(nat \<times> event_payload) list"
  eventsLoading :: bool
  eventsError :: string
  alerts :: "alert list"
  revoked :: "string list"

text \<open>The payload of \<open>handleSaveEvent\<close> and its own required-fields test.\<close>

definition build_payload :: "event_form \<Rightarrow> event_payload" where
  "build_payload form =
     \<lparr>p_event_date = isoDate (date form),
      p_event_type = or_null (Some (event_type form)),
      p_location = Some (js_trim (location form)),
      p_title = Some (js_trim (title form)),
      p_short_description = Some (js_trim (short_description form)),
      p_summary = Some (js_trim (summary form)),
      p_impact_on_communication = Some (js_trim (impact_on_communication form))\<rparr>"

definition missing :: "event_payload \<Rightarrow> bool" where
  "missing payload =
     (\<not> truthy (p_event_date payload) \<or>
      js_trim (or_empty (p_event_type payload)) = [] \<or>
      js_trim (or_empty (p_location payload)) = [] \<or>
      js_trim (or_empty (p_title payload)) = [] \<or>
      js_trim (or_empty (p_short_description payload)) = [] \<or>
      js_trim (or_empty (p_summary payload)) = [] \<or>
      js_trim (or_empty (p_impact_on_communication payload)) = [])"

text \<open>The message of the error thrown for a response that is not \<open>ok\<close>, and of the \<open>catch\<close>.\<close>

definition http_error :: "response \<Rightarrow> alert" where
  "http_error res =
     (if truthy (res_text res) then ErrorText (or_empty (res_text res))
      else HttpStatusError (res_status res))"

definition upload_error :: "response \<Rightarrow> alert" where
  "upload_error res =
     (if truthy (res_text res) then ErrorText (or_empty (res_text res))
      else MediaUploadFailed (res_status res))"

definition caught :: "string \<Rightarrow> alert" where
  "caught msg = (if msg = [] then SaveFailedDefault else ErrorText msg)"

text \<open>
  \<open>loadAdminEvents\<close> catches its own errors: it never throws.
\<close>

definition events_loaded :: "fetch_result \<Rightarrow> admin_state \<Rightarrow> admin_state" where
  "events_loaded r st =
     (let failed = st\<lparr>eventsError := ''Unable to load events from the database.'',
                      eventsLoading := False\<rparr>
      in case r of
           Rejected msg \<Rightarrow> failed
         | Resolved res \<Rightarrow>
             if \<not> res_ok res then failed
             else st\<lparr>adminEvents := (case res_rows res of Some rows \<Rightarrow> rows | None \<Rightarrow> []),
                     eventsLoading := False\<rparr>)"

definition loadAdminEvents :: "admin_state \<Rightarrow> admin_state proc" where
  "loadAdminEvents st =
     Fetch GetAdminEvents
       (\<lambda>r. Done (events_loaded r (st\<lparr>eventsLoading := True, eventsError := []\<rparr>)))"

text \<open>
  \<open>closeEventModal\<close>, called from \<open>handleSaveEvent\<close>, reads \<open>isCreatingEvent\<close> and
  \<open>createQueuedMedia\<close> as they were in the render that created the handler (\<open>closure\<close>).
\<close>

definition preview_urls :: "media_item list \<Rightarrow> string list" where
  "preview_urls ms = map (\<lambda>m. or_empty (previewUrl m)) (filter (\<lambda>m. truthy (previewUrl m)) ms)"

definition closeEventModal :: "admin_state \<Rightarrow> admin_state \<Rightarrow> admin_state" where
  "closeEventModal closure st =
     st\<lparr>revoked := revoked st @
          (if isCreatingEvent closure \<and> createQueuedMedia closure \<noteq> []
           then preview_urls (createQueuedMedia closure) else []),
        eventModalOpen := False,
        editingEvent := None,
        isCreatingEvent := False,
        eventMedia := [],
        eventMediaIndex := 0,
        createQueuedMedia := [],
        createMediaIndex := 0\<rparr>"

text \<open>
  The loop over the queued media; \<open>i\<close> counts the items already sent, \<open>k\<close> is the code after
  the loop. A thrown error ends the \<open>try\<close> block with \<open>Some\<close> alert.
  \<^verbatim>\<open>
  for (let i = 0; i < createQueuedMedia.length; i++) {
    const m = createQueuedMedia[i];
    setCreateMediaUploadingText(`Uploading article image ${i + 1} of ${createQueuedMedia.length}...`);
    const fd = new FormData(); fd.append('file', m.file); fd.append('caption', (m.caption || '').trim());
    const upRes = await fetch(`${ADMIN_API_BASE}/api/admin/events/${createdId}/media`, {method: 'POST', body: fd, ...});
    if (!upRes.ok) { ...; throw new Error(...); }
    if (m.previewUrl) { try { URL.revokeObjectURL(m.previewUrl); } catch {} }
  }
  \<close>
\<close>

definition upload_request :: "nat \<Rightarrow> media_item \<Rightarrow> request" where
  "upload_request createdId m = PostEventMedia createdId (m_file m) (js_trim (or_empty (caption m)))"

definition uploaded_one :: "nat \<Rightarrow> nat \<Rightarrow> media_item \<Rightarrow> admin_state \<Rightarrow> admin_state" where
  "uploaded_one n i m st =
     (let st = st\<lparr>createMediaUploadingText := Some (i + 1, n)\<rparr>
      in if truthy (previewUrl m) then st\<lparr>revoked := revoked st @ [or_empty (previewUrl m)]\<rparr>
         else st)"

primrec upload_loop ::
  "nat \<Rightarrow> nat \<Rightarrow> media_item list \<Rightarrow> nat \<Rightarrow> (admin_state \<Rightarrow> (alert option \<times> admin_state) proc)
     \<Rightarrow> admin_state \<Rightarrow> (alert option \<times> admin_state) proc" where
  "upload_loop createdId n [] i k st = k st"
| "upload_loop createdId n (m # ms) i k st =
     Fetch (upload_request createdId m)
       (\<lambda>r. case r of
               Rejected msg \<Rightarrow>
                 Done (Some (caught msg), st\<lparr>createMediaUploadingText := Some (i + 1, n)\<rparr>)
             | Resolved upRes \<Rightarrow>
                 if \<not> res_ok upRes then
                   Done (Some (upload_error upRes),
                         st\<lparr>createMediaUploadingText := Some (i + 1, n)\<rparr>)
                 else upload_loop createdId n ms (i + 1) k (uploaded_one n i m st))"

text \<open>The state after the loop has sent all the items \<open>ms\<close>, used to state its result.\<close>

primrec uploaded_all :: "nat \<Rightarrow> media_item list \<Rightarrow> nat \<Rightarrow> admin_state \<Rightarrow> admin_state" where
  "uploaded_all n [] i st = st"
| "uploaded_all n (m # ms) i st = uploaded_all n ms (i + 1) (uploaded_one n i m st)"

text \<open>The code after the uploads: two calls of \<open>loadAdminEvents\<close>, then \<open>closeEventModal\<close>.\<close>

definition refresh_and_close :: "admin_state \<Rightarrow> admin_state \<Rightarrow> (alert option \<times> admin_state) proc" where
  "refresh_and_close closure st =
     proc_bind (loadAdminEvents st)
       (\<lambda>st. proc_bind (loadAdminEvents st)
          (\<lambda>st. Done (None, closeEventModal closure st)))"

text \<open>
  The \<open>try\<close> block of \<open>handleSaveEvent\<close>; its value is the alert of a thrown error, if any,
  and the state.
\<close>

definition save_try ::
  "event_payload \<Rightarrow> admin_state \<Rightarrow> admin_state \<Rightarrow> (alert option \<times> admin_state) proc" where
  "save_try payload closure st =
     (if isCreatingEvent closure then
        Fetch (PostEvent payload)
          (\<lambda>r. case r of
                  Rejected msg \<Rightarrow> Done (Some (caught msg), st)
                | Resolved res \<Rightarrow>
                    if \<not> res_ok res then Done (Some (http_error res), st)
                    else
                      (case id_or_null (res_id res) of
                         Some createdId \<Rightarrow>
                           if length (createQueuedMedia closure) \<noteq> 0 then
                             upload_loop createdId (length (createQueuedMedia closure))
                               (createQueuedMedia closure) 0
                               (\<lambda>st. refresh_and_close closure
                                        (st\<lparr>createQueuedMedia := [], createMediaIndex := 0,
                                            createMediaUploading := False,
                                            createMediaUploadingText := None\<rparr>))
                               (st\<lparr>createMediaUploading := True\<rparr>)
                           else refresh_and_close closure st
                       | None \<Rightarrow> refresh_and_close closure st))
      else
        (case editingEvent closure of
           None \<Rightarrow> Done (None, st)
         | Some eventId \<Rightarrow>
             Fetch (PutEvent eventId payload)
               (\<lambda>r. case r of
                       Rejected msg \<Rightarrow> Done (Some (caught msg), st)
                     | Resolved res \<Rightarrow>
                         if \<not> res_ok res then Done (Some (http_error res), st)
                         else proc_bind (loadAdminEvents st)
                                (\<lambda>st. Done (None, closeEventModal closure st)))))"

text \<open>The \<open>catch\<close> and \<open>finally\<close> blocks.\<close>

definition save_finally :: "alert option \<times> admin_state \<Rightarrow> admin_state" where
  "save_finally res =
     (case res of (thrown, st) \<Rightarrow>
        (let st = (case thrown of None \<Rightarrow> st | Some a \<Rightarrow> st\<lparr>alerts := alerts st @ [a]\<rparr>)
         in st\<lparr>eventSaving := False, createMediaUploading := False,
               createMediaUploadingText := None\<rparr>))"

definition handleSaveEvent :: "admin_state \<Rightarrow> admin_state proc" where
  "handleSaveEvent st =
     (let payload = build_payload (eventForm st)
      in if missing payload then Done (st\<lparr>alerts := alerts st @ [RequiredFieldsAlert]\<rparr>)
         else proc_bind (save_try payload st (st\<lparr>eventSaving := True\<rparr>))
                (\<lambda>res. Done (save_finally res)))"

text \<open>
  A click on the primary button of the modal: \<open>handlePrimarySaveClick\<close> with
  \<open>form = eventForm\<close> and \<open>onSave = handleSaveEvent\<close>, as \<open>AdminView\<close> passes them.
\<close>

definition save_click :: "modal_state \<Rightarrow> admin_state \<Rightarrow> modal_state \<times> admin_state proc" where
  "save_click ms st =
     (case handlePrimarySaveClick ms (eventForm st) of
        (ms', callOnSave) \<Rightarrow> (ms', if callOnSave then handleSaveEvent st else Done st))"


section \<open>Properties\<close>

subsection \<open>Deleting media keeps the index in bounds\<close>

lemma length_filter_less_mem:
  assumes "x \<in> set xs" and "\<not> P x"
  shows "length (filter P xs) < length xs"
  using assms by (meson length_filter_less)

text \<open>
  Claim C7. After deleting a media item of the list in either mode, the active index stays
  within bounds. Let \<open>M\<close> be the length of the list before the deletion, and let the index
  before it be non-negative. Deleting the only item empties the list and sets the index
  to 0; for \<open>M \<ge> 2\<close> the new index lies in \<open>[0, M - 2]\<close>; and in every case the new
  index is a valid position of the shortened list (or 0 when that list is empty).
\<close>

theorem delete_media_index_in_bounds:
  assumes "item \<in> set media" and "0 \<le> idx"
  shows "(case onDeleteMedia_update item media idx of
            (next, idx', url) \<Rightarrow>
              (length media = 1 \<longrightarrow> next = [] \<and> idx' = 0) \<and>
              (2 \<le> length media \<longrightarrow> 0 \<le> idx' \<and> idx' \<le> int (length media) - 2) \<and>
              (next = [] \<longrightarrow> idx' = 0) \<and>
              (next \<noteq> [] \<longrightarrow> 0 \<le> idx' \<and> idx' < int (length next))) \<and>
         (case confirmDeleteMedia_update item media idx of
            (next, idx') \<Rightarrow>
              (length media = 1 \<longrightarrow> next = [] \<and> idx' = 0) \<and>
              (2 \<le> length media \<longrightarrow> 0 \<le> idx' \<and> idx' \<le> int (length media) - 2) \<and>
              (next = [] \<longrightarrow> idx' = 0) \<and>
              (next \<noteq> [] \<longrightarrow> 0 \<le> idx' \<and> idx' < int (length next)))"
proof -
  let ?nc = "filter (\<lambda>m. localId m \<noteq> localId item) media"
  let ?ne = "filter (\<lambda>m. m_id m \<noteq> m_id item) media"
  have lc: "length ?nc < length media"
    using assms(1) by (intro length_filter_less_mem [of item]) simp_all
  have le: "length ?ne < length media"
    using assms(1) by (intro length_filter_less_mem [of item]) simp_all
  have create: "(length media = 1 \<longrightarrow> ?nc = []) \<and> (?nc \<noteq> [] \<longrightarrow> 0 < length ?nc)"
    using lc by auto
  have edit: "(length media = 1 \<longrightarrow> ?ne = []) \<and> (?ne \<noteq> [] \<longrightarrow> 0 < length ?ne)"
    using le by auto
  show ?thesis
    unfolding onDeleteMedia_update_def confirmDeleteMedia_update_def Let_def prod.case
    using lc le create edit assms(2) by (auto simp: min_def)
qed

theorem delete_media_index_in_bounds_witness:
  "(let a = \<lparr>m_id = Some 1, localId = Some ''local-1'', m_url = None, previewUrl = Some ''blob:a'',
              m_file = None, caption = Some ''A''\<rparr>;
        b = \<lparr>m_id = Some 2, localId = Some ''local-2'', m_url = None, previewUrl = Some ''blob:b'',
              m_file = None, caption = Some ''B''\<rparr>
    in onDeleteMedia_update b [a, b] 1 = ([a], 0, Some ''blob:b'') \<and>
       confirmDeleteMedia_update b [a, b] 1 = ([a], 0) \<and>
       onDeleteMedia_update a [a] 0 = ([], 0, Some ''blob:a'') \<and>
       confirmDeleteMedia_update a [a] 0 = ([], 0))"
proof -
  let ?a = "\<lparr>m_id = Some 1, localId = Some ''local-1'', m_url = None, previewUrl = Some ''blob:a'',
              m_file = None, caption = Some ''A''\<rparr>"
  let ?b = "\<lparr>m_id = Some 2, localId = Some ''local-2'', m_url = None, previewUrl = Some ''blob:b'',
              m_file = None, caption = Some ''B''\<rparr>"
  have "?b \<in> set [?a, ?b]" and "(0::int) \<le> 1" by simp_all
  note delete_media_index_in_bounds [OF this]
  then show ?thesis
    by (simp add: onDeleteMedia_update_def confirmDeleteMedia_update_def truthy_def Let_def)
qed


subsection \<open>Facts about strings\<close>

lemma digit_not_sep: "is_digit c \<Longrightarrow> c \<noteq> CHR ''/'' \<and> c \<noteq> CHR ''-''"
  by (auto simp: is_digit_def)

lemma digit_not_space: "is_digit c \<Longrightarrow> \<not> is_space c"
  by (auto simp: is_digit_def is_space_def)

lemma js_split_nonempty: "js_split sep s \<noteq> []"
  by (induction s) (auto split: list.splits)

lemma js_split_sep: "js_split sep (sep # cs) = [] # js_split sep cs"
  by simp

lemma js_split_other:
  "c \<noteq> sep \<Longrightarrow> js_split sep (c # cs) = (c # hd (js_split sep cs)) # tl (js_split sep cs)"
  using js_split_nonempty [of sep cs] by (cases "js_split sep cs") simp_all


lemma digits_of_all: "\<forall>c\<in>set (digits_of s). is_digit c"
  by (simp add: digits_of_def)

lemma take8_digits: "\<forall>c\<in>set (take 8 (digits_of s)). is_digit c"
  using digits_of_all by (meson in_set_takeD)

lemma date_pattern_chars:
  assumes "date_pattern d"
  obtains m1 m2 d1 d2 y1 y2 y3 y4 where
    "d = [m1, m2, CHR ''/'', d1, d2, CHR ''/'', y1, y2, y3, y4]"
    "is_digit m1" "is_digit m2" "is_digit d1" "is_digit d2"
    "is_digit y1" "is_digit y2" "is_digit y3" "is_digit y4"
  using assms by (auto elim!: date_pattern.elims)

lemma iso_pattern_chars:
  assumes "iso_pattern s"
  obtains m1 m2 d1 d2 y1 y2 y3 y4 where
    "s = [y1, y2, y3, y4, CHR ''-'', m1, m2, CHR ''-'', d1, d2]"
    "is_digit m1" "is_digit m2" "is_digit d1" "is_digit d2"
    "is_digit y1" "is_digit y2" "is_digit y3" "is_digit y4"
  using assms by (auto elim!: iso_pattern.elims)

lemma trim_no_space:
  assumes "s \<noteq> []" and "\<not> is_space (hd s)" and "\<not> is_space (last s)"
  shows "js_trim s = s"
proof -
  have 1: "dropWhile is_space s = s"
    using assms(1,2) by (cases s) simp_all
  have 2: "dropWhile is_space (rev s) = rev s"
    using assms(1,3) by (cases "rev s") (simp_all add: last_rev [symmetric] hd_rev)
  show ?thesis by (simp add: js_trim_def 1 2)
qed

lemma date_pattern_trim: "date_pattern d \<Longrightarrow> js_trim d = d"
proof (erule date_pattern_chars)
  fix m1 m2 d1 d2 y1 y2 y3 y4
  assume d: "d = [m1, m2, CHR ''/'', d1, d2, CHR ''/'', y1, y2, y3, y4]"
    and "is_digit m1" and "is_digit y4"
  then show "js_trim d = d"
    by (intro trim_no_space) (simp_all add: digit_not_space)
qed

subsection \<open>Date input shaping\<close>




lemma handleDateInputChange_reject:
  assumes "8 \<le> length (digits_of previous)"
    and "length (digits_of previous) < length (digits_of raw)"
  shows "handleDateInputChange previous raw = previous"
  using assms by (simp add: handleDateInputChange_def Let_def)

lemma handleDateInputChange_accept:
  assumes "\<not> (8 \<le> length (digits_of previous) \<and>
              length (digits_of previous) < length (digits_of raw))"
  shows "handleDateInputChange previous raw = segment_date (take 8 (digits_of raw))"
  using assms by (auto simp: handleDateInputChange_def Let_def js_slice_def)



subsection \<open>Round trip of the date\<close>

lemma split_display:
  assumes "m1 \<noteq> CHR ''/''" "m2 \<noteq> CHR ''/''" "d1 \<noteq> CHR ''/''" "d2 \<noteq> CHR ''/''"
    "y1 \<noteq> CHR ''/''" "y2 \<noteq> CHR ''/''" "y3 \<noteq> CHR ''/''" "y4 \<noteq> CHR ''/''"
  shows "js_split CHR ''/'' [m1, m2, CHR ''/'', d1, d2, CHR ''/'', y1, y2, y3, y4] =
         [[m1, m2], [d1, d2], [y1, y2, y3, y4]]"
  using assms by (simp add: js_split_other js_split_sep del: js_split.simps(2))

lemma split_iso:
  assumes "m1 \<noteq> CHR ''-''" "m2 \<noteq> CHR ''-''" "d1 \<noteq> CHR ''-''" "d2 \<noteq> CHR ''-''"
    "y1 \<noteq> CHR ''-''" "y2 \<noteq> CHR ''-''" "y3 \<noteq> CHR ''-''" "y4 \<noteq> CHR ''-''"
  shows "js_split CHR ''-'' [y1, y2, y3, y4, CHR ''-'', m1, m2, CHR ''-'', d1, d2] =
         [[y1, y2, y3, y4], [m1, m2], [d1, d2]]"
  using assms by (simp add: js_split_other js_split_sep del: js_split.simps(2))

lemma isoDate_chars:
  assumes "is_digit m1" "is_digit m2" "is_digit d1" "is_digit d2"
    "is_digit y1" "is_digit y2" "is_digit y3" "is_digit y4"
  shows "isoDate [m1, m2, CHR ''/'', d1, d2, CHR ''/'', y1, y2, y3, y4] =
         Some [y1, y2, y3, y4, CHR ''-'', m1, m2, CHR ''-'', d1, d2]"
proof -
  note ne = assms [THEN digit_not_sep, THEN conjunct1]
  show ?thesis
    unfolding isoDate_def split_display [OF ne] Let_def
    by (simp add: js_nth_def truthy_def or_empty_def js_str_def)
qed

lemma displayDate_chars:
  assumes "is_digit m1" "is_digit m2" "is_digit d1" "is_digit d2"
    "is_digit y1" "is_digit y2" "is_digit y3" "is_digit y4"
  shows "displayDate (Some ([y1, y2, y3, y4, CHR ''-'', m1, m2, CHR ''-'', d1, d2] @ suffix)) =
         [m1, m2, CHR ''/'', d1, d2, CHR ''/'', y1, y2, y3, y4]"
proof -
  note ne = assms [THEN digit_not_sep, THEN conjunct2]
  let ?ev = "Some ([y1, y2, y3, y4, CHR ''-'', m1, m2, CHR ''-'', d1, d2] @ suffix)"
  have sl: "js_slice (js_str ?ev) 0 10 = [y1, y2, y3, y4, CHR ''-'', m1, m2, CHR ''-'', d1, d2]"
    by (simp add: js_slice_def js_str_def)
  have tr: "truthy ?ev"
    by (simp add: truthy_def)
  have "displayDate ?ev =
        (let parts = js_split CHR ''-'' [y1, y2, y3, y4, CHR ''-'', m1, m2, CHR ''-'', d1, d2];
             yyyy = js_nth parts 0; mm = js_nth parts 1; dd = js_nth parts 2
         in js_str mm @ ''/'' @ js_str dd @ ''/'' @ js_str yyyy)"
    unfolding displayDate_def using sl tr by (simp add: Let_def del: js_split.simps)
  also have "\<dots> = [m1, m2, CHR ''/'', d1, d2, CHR ''/'', y1, y2, y3, y4]"
    unfolding split_iso [OF ne] by (simp add: js_nth_def js_str_def)
  finally show ?thesis .
qed

lemma display_to_storage:
  assumes "date_pattern d"
  shows "\<exists>s. isoDate d = Some s \<and> iso_pattern s \<and> (\<forall>suffix. displayDate (Some (s @ suffix)) = d)"
proof (rule date_pattern_chars [OF assms])
  fix m1 m2 d1 d2 y1 y2 y3 y4
  assume d: "d = [m1, m2, CHR ''/'', d1, d2, CHR ''/'', y1, y2, y3, y4]"
    and dg: "is_digit m1" "is_digit m2" "is_digit d1" "is_digit d2"
      "is_digit y1" "is_digit y2" "is_digit y3" "is_digit y4"
  let ?s = "[y1, y2, y3, y4, CHR ''-'', m1, m2, CHR ''-'', d1, d2]"
  have 1: "isoDate d = Some ?s"
    unfolding d by (rule isoDate_chars [OF dg])
  have 2: "iso_pattern ?s"
    using dg by simp
  have 3: "displayDate (Some (?s @ suffix)) = d" for suffix
    unfolding d by (rule displayDate_chars [OF dg])
  from 1 2 3 show ?thesis by blast
qed

lemma storage_to_display:
  assumes "iso_pattern s"
  shows "date_pattern (displayDate (Some (s @ suffix))) \<and>
         isoDate (displayDate (Some (s @ suffix))) = Some s"
proof (rule iso_pattern_chars [OF assms])
  fix m1 m2 d1 d2 y1 y2 y3 y4
  assume s: "s = [y1, y2, y3, y4, CHR ''-'', m1, m2, CHR ''-'', d1, d2]"
    and dg: "is_digit m1" "is_digit m2" "is_digit d1" "is_digit d2"
      "is_digit y1" "is_digit y2" "is_digit y3" "is_digit y4"
  let ?d = "[m1, m2, CHR ''/'', d1, d2, CHR ''/'', y1, y2, y3, y4]"
  have 1: "displayDate (Some (s @ suffix)) = ?d"
    unfolding s by (rule displayDate_chars [OF dg])
  have 2: "date_pattern ?d"
    using dg by simp
  have 3: "isoDate ?d = Some s"
    unfolding s by (rule isoDate_chars [OF dg])
  from 1 2 3 show ?thesis by simp
qed

text \<open>
  Claim C8. The transformation applied on save (display form to storage form) and the one
  applied when edit mode opens (storage form to display form) are mutual inverses on
  well-formed dates: a date of the shape \<open>MM/DD/YYYY\<close> is stored as a \<open>YYYY-MM-DD\<close> string
  that displays as the original date, also when the stored value comes back with a time
  suffix; and a stored \<open>YYYY-MM-DD\<close> value displays as a well-formed date that is saved as
  the same stored value.
\<close>

theorem date_round_trip:
  "(date_pattern d \<longrightarrow>
      (\<exists>s. isoDate d = Some s \<and> iso_pattern s \<and>
           (\<forall>suffix. displayDate (Some (s @ suffix)) = d))) \<and>
   (iso_pattern s \<longrightarrow>
      date_pattern (displayDate (Some (s @ suffix))) \<and>
      isoDate (displayDate (Some (s @ suffix))) = Some s)"
  using display_to_storage [of d] storage_to_display [of s suffix] by blast

theorem date_round_trip_witness:
  "date_pattern ''09/01/1859'' \<and> isoDate ''09/01/1859'' = Some ''1859-09-01'' \<and>
   iso_pattern ''1859-09-01'' \<and>
   displayDate (Some (''1859-09-01'' @ ''T00:00:00.000Z'')) = ''09/01/1859'' \<and>
   displayDate (Some ''1859-09-01'') = ''09/01/1859''"
proof -
  have p: "date_pattern ''09/01/1859''" by (simp add: is_digit_def)
  have q: "iso_pattern ''1859-09-01''" by (simp add: is_digit_def)
  from date_round_trip [of "''09/01/1859''" "''1859-09-01''" "''T00:00:00.000Z''"] p q
  have a: "\<exists>s. isoDate ''09/01/1859'' = Some s \<and> iso_pattern s \<and>
             (\<forall>suffix. displayDate (Some (s @ suffix)) = ''09/01/1859'')"
    by blast
  from a obtain s0 where s0: "isoDate ''09/01/1859'' = Some s0"
    and disp: "\<And>suffix. displayDate (Some (s0 @ suffix)) = ''09/01/1859''" by blast
  have iso: "isoDate ''09/01/1859'' = Some ''1859-09-01''"
    using isoDate_chars [of "CHR ''0''" "CHR ''9''" "CHR ''0''" "CHR ''1''"
        "CHR ''1''" "CHR ''8''" "CHR ''5''" "CHR ''9''"]
    by (simp add: is_digit_def)
  from s0 iso have eq: "s0 = ''1859-09-01''" by simp
  have c: "displayDate (Some (''1859-09-01'' @ ''T00:00:00.000Z'')) = ''09/01/1859''"
    using disp [of "''T00:00:00.000Z''"] unfolding eq .
  have d: "displayDate (Some ''1859-09-01'') = ''09/01/1859''"
    using disp [of "[]"] unfolding eq by simp
  from p q iso c d show ?thesis by blast
qed

subsection \<open>Year search\<close>

lemma exact_fold:
  "foldl (exact_step num) acc ys =
     (if Some num \<in> set ys then (Some num, True) else acc)"
  by (induction ys arbitrary: acc) (auto simp: exact_step_def)

lemma closer_fold:
  fixes num :: int
  defines "dist \<equiv> \<lambda>y. \<bar>js_Number y - num\<bar>"
  shows "dist (foldl (closer_step num) a xs) \<le> dist a \<and>
         (\<forall>y\<in>set xs. dist (foldl (closer_step num) a xs) \<le> dist y) \<and>
         (foldl (closer_step num) a xs = a \<or>
          (\<exists>ys zs. xs = ys @ foldl (closer_step num) a xs # zs \<and>
                   (\<forall>y\<in>set ys. dist (foldl (closer_step num) a xs) < dist y) \<and>
                   dist (foldl (closer_step num) a xs) < dist a))"
proof (induction xs arbitrary: a)
  case Nil
  then show ?case by simp
next
  case (Cons x xs)
  let ?r = "foldl (closer_step num) (closer_step num a x) xs"
  note IH = Cons.IH [of "closer_step num a x"]
  show ?case
  proof (cases "dist x < dist a")
    case True
    then have st: "closer_step num a x = x"
      by (simp add: closer_step_def dist_def Let_def)
    from IH have le: "dist ?r \<le> dist x" and all: "\<forall>y\<in>set xs. dist ?r \<le> dist y"
      and pos: "?r = x \<or> (\<exists>ys zs. xs = ys @ ?r # zs \<and> (\<forall>y\<in>set ys. dist ?r < dist y) \<and>
                 dist ?r < dist x)"
      unfolding st by blast+
    have lt: "dist ?r < dist a" using le True by simp
    have first: "\<exists>ys zs. x # xs = ys @ ?r # zs \<and> (\<forall>y\<in>set ys. dist ?r < dist y)"
    proof (cases "?r = x")
      case True
      then have "x # xs = [] @ ?r # xs" by simp
      then show ?thesis by (metis empty_iff empty_set)
    next
      case False
      with pos obtain ys zs where "xs = ys @ ?r # zs" "\<forall>y\<in>set ys. dist ?r < dist y"
        "dist ?r < dist x" by blast
      then have "x # xs = (x # ys) @ ?r # zs \<and> (\<forall>y\<in>set (x # ys). dist ?r < dist y)"
        by simp
      then show ?thesis by blast
    qed
    show ?thesis
      using lt le all first by (simp del: foldl_Cons add: foldl_Cons [of _ a x xs])
  next
    case False
    then have st: "closer_step num a x = a"
      by (simp add: closer_step_def dist_def Let_def)
    from IH have le: "dist ?r \<le> dist a" and all: "\<forall>y\<in>set xs. dist ?r \<le> dist y"
      and pos: "?r = a \<or> (\<exists>ys zs. xs = ys @ ?r # zs \<and> (\<forall>y\<in>set ys. dist ?r < dist y) \<and>
                 dist ?r < dist a)"
      unfolding st by blast+
    have lex: "dist ?r \<le> dist x" using le False by simp
    have first: "?r = a \<or> (\<exists>ys zs. x # xs = ys @ ?r # zs \<and> (\<forall>y\<in>set ys. dist ?r < dist y) \<and>
                 dist ?r < dist a)"
    proof (cases "?r = a")
      case True
      then show ?thesis by simp
    next
      case False
      with pos obtain ys zs where p: "xs = ys @ ?r # zs" "\<forall>y\<in>set ys. dist ?r < dist y"
        "dist ?r < dist a" by blast
      with \<open>\<not> dist x < dist a\<close> have "dist ?r < dist x" by simp
      with p have "x # xs = (x # ys) @ ?r # zs \<and> (\<forall>y\<in>set (x # ys). dist ?r < dist y) \<and>
          dist ?r < dist a"
        by simp
      then show ?thesis by blast
    qed
    show ?thesis
      using le lex all first by (simp del: foldl_Cons add: foldl_Cons [of _ a x xs])
  qed
qed

lemma closest_first_minimum:
  fixes num :: int and YEARS :: "year_key list"
  assumes "YEARS \<noteq> []"
  defines "c \<equiv> foldl (closer_step num) (hd YEARS) YEARS"
  shows "c \<in> set YEARS"
    and "\<forall>y\<in>set YEARS. \<bar>js_Number c - num\<bar> \<le> \<bar>js_Number y - num\<bar>"
    and "\<exists>ys zs. YEARS = ys @ c # zs \<and> (\<forall>y\<in>set ys. \<bar>js_Number c - num\<bar> < \<bar>js_Number y - num\<bar>)"
proof -
  from assms(1) obtain x xs where Y: "YEARS = x # xs" by (cases YEARS) auto
  note F = closer_fold [of num "hd YEARS" YEARS, folded c_def]
  from F show min: "\<forall>y\<in>set YEARS. \<bar>js_Number c - num\<bar> \<le> \<bar>js_Number y - num\<bar>"
    by blast
  from F have "c = hd YEARS \<or>
      (\<exists>ys zs. YEARS = ys @ c # zs \<and> (\<forall>y\<in>set ys. \<bar>js_Number c - num\<bar> < \<bar>js_Number y - num\<bar>))"
    by blast
  then show pos: "\<exists>ys zs. YEARS = ys @ c # zs \<and>
      (\<forall>y\<in>set ys. \<bar>js_Number c - num\<bar> < \<bar>js_Number y - num\<bar>)"
  proof
    assume "c = hd YEARS"
    then have "YEARS = [] @ c # xs" using Y by simp
    then show ?thesis by (metis empty_iff empty_set)
  qed
  then show "c \<in> set YEARS" by auto
qed

text \<open>
  Claim C5. For a submitted query that is a 4-digit year after trimming, and a non-empty
  list of available years: if the year has events it is selected directly and no note is
  shown; otherwise the selected year is an available year whose numeric distance to the
  query is minimal, every year encountered before it in the iteration is strictly
  farther (so of two equally distant years the one encountered first wins, which in the
  ascending list is the smaller one), and the informational note names the query and
  the substitute.
\<close>

theorem year_search_selects_closest:
  assumes "isFourDigits (js_trim yearQuery)" and "YEARS \<noteq> []"
  shows "(let num = parseInt (js_trim yearQuery);
              st' = handleYearSearchSubmit yearQuery YEARS st
          in searchError st' = NoSearchError \<and>
             (Some num \<in> set YEARS \<longrightarrow>
                scrollToYear st' = Some (Some num) \<and> searchInfo st' = NoSearchInfo) \<and>
             (Some num \<notin> set YEARS \<longrightarrow>
                (\<exists>c ys zs. scrollToYear st' = Some c \<and> searchInfo st' = ShowingClosest num c \<and>
                   YEARS = ys @ c # zs \<and>
                   (\<forall>y\<in>set YEARS. \<bar>js_Number c - num\<bar> \<le> \<bar>js_Number y - num\<bar>) \<and>
                   (\<forall>y\<in>set ys. \<bar>js_Number c - num\<bar> < \<bar>js_Number y - num\<bar>) \<and>
                   (sorted (map js_Number YEARS) \<longrightarrow>
                      (\<forall>y\<in>set YEARS. \<bar>js_Number y - num\<bar> = \<bar>js_Number c - num\<bar>
                          \<longrightarrow> js_Number c \<le> js_Number y)))))"
proof -
  let ?num = "parseInt (js_trim yearQuery)"
  let ?c = "foldl (closer_step ?num) (hd YEARS) YEARS"
  have len: "length YEARS \<noteq> 0" using assms(2) by simp
  have ex: "foldl (exact_step ?num) (hd YEARS, False) YEARS =
        (if Some ?num \<in> set YEARS then (Some ?num, True) else (hd YEARS, False))"
    by (rule exact_fold)
  have hit: "Some ?num \<in> set YEARS \<Longrightarrow>
      handleYearSearchSubmit yearQuery YEARS st =
        st\<lparr>searchError := NoSearchError, searchInfo := NoSearchInfo,
           view := ''home'', menuOpen := False, scrollToYear := Some (Some ?num)\<rparr>"
    using assms(1) len by (simp add: handleYearSearchSubmit_def Let_def ex)
  have miss: "Some ?num \<notin> set YEARS \<Longrightarrow>
      handleYearSearchSubmit yearQuery YEARS st =
        st\<lparr>searchError := NoSearchError, searchInfo := ShowingClosest ?num ?c,
           view := ''home'', menuOpen := False, scrollToYear := Some ?c\<rparr>"
    using assms(1) len by (simp add: handleYearSearchSubmit_def Let_def ex)
  note cl = closest_first_minimum [OF assms(2), of ?num]
  from cl(3) obtain ys zs where split: "YEARS = ys @ ?c # zs"
    and before: "\<forall>y\<in>set ys. \<bar>js_Number ?c - ?num\<bar> < \<bar>js_Number y - ?num\<bar>"
    by blast
  have tie: "js_Number ?c \<le> js_Number y"
    if srt: "sorted (map js_Number YEARS)" and y: "y \<in> set YEARS"
      and eq: "\<bar>js_Number y - ?num\<bar> = \<bar>js_Number ?c - ?num\<bar>" for y
  proof -
    from y split have "y \<in> set ys \<or> y = ?c \<or> y \<in> set zs" by (metis Un_iff set_ConsD set_append)
    then show ?thesis
    proof (elim disjE)
      assume "y \<in> set ys"
      with before eq show ?thesis by force
    next
      assume "y = ?c"
      then show ?thesis by simp
    next
      assume "y \<in> set zs"
      moreover from srt have "sorted (map js_Number ys @ js_Number ?c # map js_Number zs)"
        by (subst (asm) split) simp
      ultimately show ?thesis
        by (auto simp: sorted_append)
    qed
  qed
  show ?thesis
    unfolding Let_def
  proof (intro conjI impI)
    show "searchError (handleYearSearchSubmit yearQuery YEARS st) = NoSearchError"
      using hit miss by (cases "Some ?num \<in> set YEARS") simp_all
  next
    assume "Some ?num \<in> set YEARS"
    then show "scrollToYear (handleYearSearchSubmit yearQuery YEARS st) = Some (Some ?num)"
      and "searchInfo (handleYearSearchSubmit yearQuery YEARS st) = NoSearchInfo"
      by (simp_all add: hit)
  next
    assume m: "Some ?num \<notin> set YEARS"
    have "scrollToYear (handleYearSearchSubmit yearQuery YEARS st) = Some ?c \<and>
          searchInfo (handleYearSearchSubmit yearQuery YEARS st) = ShowingClosest ?num ?c"
      by (simp add: miss [OF m])
    with split cl(2) before tie
    show "\<exists>c ys zs. scrollToYear (handleYearSearchSubmit yearQuery YEARS st) = Some c \<and>
        searchInfo (handleYearSearchSubmit yearQuery YEARS st) = ShowingClosest ?num c \<and>
        YEARS = ys @ c # zs \<and>
        (\<forall>y\<in>set YEARS. \<bar>js_Number c - ?num\<bar> \<le> \<bar>js_Number y - ?num\<bar>) \<and>
        (\<forall>y\<in>set ys. \<bar>js_Number c - ?num\<bar> < \<bar>js_Number y - ?num\<bar>) \<and>
        (sorted (map js_Number YEARS) \<longrightarrow>
           (\<forall>y\<in>set YEARS. \<bar>js_Number y - ?num\<bar> = \<bar>js_Number c - ?num\<bar>
               \<longrightarrow> js_Number c \<le> js_Number y))"
      by blast
  qed
qed

lemma parseInt_1900: "parseInt ''1900'' = 1900"
  by (simp add: parseInt_def digit_value_def)

lemma trim_1900: "js_trim '' 1900 '' = ''1900''"
  by (simp add: js_trim_def is_space_def)

theorem year_search_selects_closest_witness:
  "isFourDigits (js_trim '' 1900 '') \<and> [Some 1859, Some 1921, Some 1989] \<noteq> [] \<and>
   scrollToYear (handleYearSearchSubmit '' 1900 '' [Some 1859, Some 1921, Some 1989]
      \<lparr>searchError = NoSearchError, searchInfo = NoSearchInfo, view = ''about'',
       menuOpen = True, scrollToYear = None\<rparr>) = Some (Some 1921) \<and>
   searchInfo (handleYearSearchSubmit '' 1900 '' [Some 1859, Some 1921, Some 1989]
      \<lparr>searchError = NoSearchError, searchInfo = NoSearchInfo, view = ''about'',
       menuOpen = True, scrollToYear = None\<rparr>) = ShowingClosest 1900 (Some 1921)"
proof -
  let ?Y = "[Some 1859, Some 1921, Some (1989::int)]"
  let ?st = "\<lparr>searchError = NoSearchError, searchInfo = NoSearchInfo, view = ''about'',
       menuOpen = True, scrollToYear = None\<rparr>"
  have four: "isFourDigits (js_trim '' 1900 '')"
    by (simp add: trim_1900 isFourDigits_def is_digit_def)
  have ne: "?Y \<noteq> []" by simp
  have notin: "Some (parseInt (js_trim '' 1900 '')) \<notin> set ?Y"
    by (simp add: trim_1900 parseInt_1900)
  from year_search_selects_closest [OF four ne, of ?st] notin
  obtain c where c: "scrollToYear (handleYearSearchSubmit '' 1900 '' ?Y ?st) = Some c"
    and i: "searchInfo (handleYearSearchSubmit '' 1900 '' ?Y ?st) = ShowingClosest 1900 c"
    and mem: "c \<in> set ?Y"
    and m: "\<forall>y\<in>set ?Y. \<bar>js_Number c - 1900\<bar> \<le> \<bar>js_Number y - 1900\<bar>"
    unfolding Let_def trim_1900 parseInt_1900 by (metis in_set_conv_decomp)
  from mem m have "c = Some 1921"
    by (auto simp: js_Number_def)
  with c i four ne show ?thesis by simp
qed

subsection \<open>Login\<close>

text \<open>
  A request without a user name or without a password is not a login attempt: the
  handler's first guard answers 400 for the missing field, before any lookup.
\<close>

lemma login_missing_field_refused:
  assumes "\<not> truthy (l_username req) \<or> \<not> truthy (l_password req)"
  shows "post_login bcrypt_compare question_text admin_users req =
           (400, ErrorBody ''Username and password are required.'')"
  using assms by (auto simp: post_login_def)

text \<open>
  Claim C9. For any login request that supplies a user name and a password, where the
  user name exists and the password does not match, the answer is the single
  invalid-credentials failure with status 401. It is an error body, never the
  security-question challenge, whether or not the account has a security question, is
  protected, or an answer was sent: the password is compared before the security answer
  is looked at.
\<close>

theorem login_wrong_password_no_challenge:
  assumes "truthy (l_username req)" and "truthy (l_password req)"
    and "find (\<lambda>u. username u = or_empty (l_username req)) admin_users = Some user"
    and "\<not> bcrypt_compare (or_empty (l_password req)) (password_hash user)"
  shows "post_login bcrypt_compare question_text admin_users req =
           (401, ErrorBody ''Invalid username or password.'') \<and>
         (\<forall>q txt. snd (post_login bcrypt_compare question_text admin_users req)
                    \<noteq> SecurityAnswerRequired q txt)"
  using assms by (simp add: post_login_def)

theorem login_wrong_password_no_challenge_witness:
  "post_login (=) (map_of [(3, ''First pet?'')])
     [\<lparr>u_id = 7, username = ''editor'', password_hash = ''secret'', is_protected = 0,
       security_question_id = Some 3, security_answer_hash = Some ''rex''\<rparr>]
     \<lparr>l_username = Some ''editor'', l_password = Some ''guess'', l_securityAnswer = None\<rparr>
   = (401, ErrorBody ''Invalid username or password.'')"
proof -
  let ?u = "\<lparr>u_id = 7, username = ''editor'', password_hash = ''secret'', is_protected = 0,
       security_question_id = Some 3, security_answer_hash = Some ''rex''\<rparr>"
  let ?req = "\<lparr>l_username = Some ''editor'', l_password = Some ''guess'', l_securityAnswer = None\<rparr>"
  have t: "truthy (l_username ?req)" "truthy (l_password ?req)"
    by (simp_all add: truthy_def)
  have f: "find (\<lambda>u. username u = or_empty (l_username ?req)) [?u] = Some ?u"
    by (simp add: or_empty_def)
  have w: "\<not> (or_empty (l_password ?req) = password_hash ?u)"
    by (simp add: or_empty_def)
  from login_wrong_password_no_challenge [of ?req "[?u]" ?u "(=)", OF t f w]
  show ?thesis by blast
qed

subsection \<open>Protected accounts\<close>

lemma put_user_protected_refused:
  assumes "find (\<lambda>u. u_id u = userId) admin_users = Some user" and "is_protected user = 1"
  shows "put_user bcrypt_hash admin_users userId req =
           ((403, ErrorBody ''This account is protected and cannot be edited.''), admin_users)"
proof -
  from assms(1) have "filter (\<lambda>u. u_id u = userId) admin_users \<noteq> []
      \<and> hd (filter (\<lambda>u. u_id u = userId) admin_users) = user"
    by (induction admin_users) (auto split: if_splits)
  with assms(2) show ?thesis by (simp add: put_user_def Let_def)
qed

lemma delete_user_protected_refused:
  assumes "find (\<lambda>u. u_id u = userId) admin_users = Some user" and "is_protected user = 1"
  shows "delete_user admin_users userId =
           ((403, ErrorBody ''This account is protected and cannot be deleted.''), admin_users)"
proof -
  from assms(1) have "filter (\<lambda>u. u_id u = userId) admin_users \<noteq> []
      \<and> hd (filter (\<lambda>u. u_id u = userId) admin_users) = user"
    by (induction admin_users) (auto split: if_splits)
  with assms(2) show ?thesis by (simp add: delete_user_def Let_def)
qed

text \<open>
  Claim C2 says that every route that can modify a row of \<open>admin_users\<close> refuses a protected
  account. \<open>PUT /api/admin/users/:id\<close> and \<open>DELETE /api/admin/users/:id\<close> do (the two lemmas
  above). \<open>PUT /api/admin/profile\<close> does not: for the protected account 1 and a new
  password it answers 200 and stores the hash of the new password, for any hash function.
\<close>

theorem put_profile_changes_protected_account:
  "put_profile bcrypt_hash
     [\<lparr>u_id = 1, username = ''admin'', password_hash = ''old-hash'', is_protected = 1,
       security_question_id = None, security_answer_hash = None\<rparr>]
     \<lparr>a_userId = Some 1, a_password = Some ''new-password'', a_securityQuestionId = None,
      a_securityAnswer = None\<rparr>
   = ((200, Success),
      [\<lparr>u_id = 1, username = ''admin'', password_hash = bcrypt_hash ''new-password'',
        is_protected = 1, security_question_id = None, security_answer_hash = None\<rparr>])"
proof -
  have t: "js_trim ''new-password'' = ''new-password''"
    by (simp add: js_trim_def is_space_def)
  show ?thesis
    by (simp add: put_profile_def id_or_null_def build_fields_def truthy_def or_empty_def t
        update_admin_user_def Let_def)
qed

subsection \<open>Event endpoints\<close>


lemma truthy_or_null: "truthy v \<Longrightarrow> or_null v = v"
  by (simp add: or_null_def)





subsection \<open>Validation blocks the save\<close>

lemma run_Done: "run (Done a) rs = ([], Some a)"
  by simp

lemma validate_ok_iff:
  "snd (validateEventForm form) \<longleftrightarrow>
     isValidDate (date form) \<and> js_trim (event_type form) \<noteq> [] \<and> js_trim (location form) \<noteq> [] \<and>
     js_trim (title form) \<noteq> [] \<and> js_trim (short_description form) \<noteq> [] \<and>
     js_trim (summary form) \<noteq> [] \<and> js_trim (impact_on_communication form) \<noteq> []"
  by (simp add: validateEventForm_def Let_def required_msg_def)

lemma validate_errors:
  "fst (validateEventForm form) =
     \<lparr>err_date = (if \<not> isValidDate (date form) then required_msg else []),
      err_event_type = (if js_trim (event_type form) = [] then required_msg else []),
      err_location = (if js_trim (location form) = [] then required_msg else []),
      err_title = (if js_trim (title form) = [] then required_msg else []),
      err_short_description = (if js_trim (short_description form) = [] then required_msg else []),
      err_summary = (if js_trim (summary form) = [] then required_msg else []),
      err_impact_on_communication =
        (if js_trim (impact_on_communication form) = [] then required_msg else [])\<rparr>"
  by (simp add: validateEventForm_def Let_def)

lemma handlePrimarySaveClick_eq:
  "handlePrimarySaveClick ms form =
     (ms\<lparr>eventTriedSubmit := True, eventErrors := fst (validateEventForm form)\<rparr>,
      snd (validateEventForm form))"
  by (cases "validateEventForm form") (simp add: handlePrimarySaveClick_def Let_def)

lemma save_click_eq:
  "save_click ms st =
     (ms\<lparr>eventTriedSubmit := True, eventErrors := fst (validateEventForm (eventForm st))\<rparr>,
      if snd (validateEventForm (eventForm st)) then handleSaveEvent st else Done st)"
  by (simp add: save_click_def handlePrimarySaveClick_eq)

text \<open>
  Claim C3. A click on Save with at least one required field missing (the date does not
  match the two-digit/two-digit/four-digit pattern, or one of type, location, title,
  short description, summary, impact is empty after trimming) issues no network call,
  whatever answers could arrive, and leaves the admin state as it was; the submit is
  marked as attempted; and exactly the missing fields carry the per-field error.
\<close>

theorem invalid_form_blocks_save:
  assumes "\<not> isValidDate (date (eventForm st)) \<or> js_trim (event_type (eventForm st)) = [] \<or>
           js_trim (location (eventForm st)) = [] \<or> js_trim (title (eventForm st)) = [] \<or>
           js_trim (short_description (eventForm st)) = [] \<or>
           js_trim (summary (eventForm st)) = [] \<or>
           js_trim (impact_on_communication (eventForm st)) = []"
  shows "(case save_click ms st of
            (ms', p) \<Rightarrow>
              run p answers = ([], Some st) \<and>
              eventTriedSubmit ms' \<and>
              (err_date (eventErrors ms') = required_msg \<longleftrightarrow> \<not> isValidDate (date (eventForm st))) \<and>
              (err_event_type (eventErrors ms') = required_msg
                 \<longleftrightarrow> js_trim (event_type (eventForm st)) = []) \<and>
              (err_location (eventErrors ms') = required_msg
                 \<longleftrightarrow> js_trim (location (eventForm st)) = []) \<and>
              (err_title (eventErrors ms') = required_msg
                 \<longleftrightarrow> js_trim (title (eventForm st)) = []) \<and>
              (err_short_description (eventErrors ms') = required_msg
                 \<longleftrightarrow> js_trim (short_description (eventForm st)) = []) \<and>
              (err_summary (eventErrors ms') = required_msg
                 \<longleftrightarrow> js_trim (summary (eventForm st)) = []) \<and>
              (err_impact_on_communication (eventErrors ms') = required_msg
                 \<longleftrightarrow> js_trim (impact_on_communication (eventForm st)) = []))"
proof -
  have nok: "\<not> snd (validateEventForm (eventForm st))"
    using assms unfolding validate_ok_iff by blast
  have msg: "required_msg \<noteq> []"
    by (simp add: required_msg_def)
  show ?thesis
    unfolding save_click_eq prod.case
    using nok msg by (simp add: validate_errors)
qed

theorem invalid_form_blocks_save_witness:
  "(case save_click
           \<lparr>eventTriedSubmit = False,
            eventErrors = \<lparr>err_date = [], err_event_type = [], err_location = [], err_title = [],
                           err_short_description = [], err_summary = [],
                           err_impact_on_communication = []\<rparr>,
            captionEditing = False, captionDraft = []\<rparr>
           \<lparr>eventModalOpen = True, isCreatingEvent = True, editingEvent = None,
            eventForm = \<lparr>date = ''09/01/18'', event_type = ''Storm'', location = ''   '',
                         title = ''Carrington Event'', short_description = ''x'', summary = ''y'',
                         impact_on_communication = ''z''\<rparr>,
            eventMedia = [], eventMediaIndex = 0, createQueuedMedia = [], createMediaIndex = 0,
            eventSaving = False, createMediaUploading = False, createMediaUploadingText = None,
            adminEvents = [], eventsLoading = False, eventsError = [], alerts = [],
            revoked = []\<rparr> of
      (ms', p) \<Rightarrow>
        fst (run p []) = [] \<and> eventTriedSubmit ms' \<and>
        err_date (eventErrors ms') = required_msg \<and>
        err_location (eventErrors ms') = required_msg \<and>
        err_title (eventErrors ms') \<noteq> required_msg)"
proof -
  let ?form = "\<lparr>date = ''09/01/18'', event_type = ''Storm'', location = ''   '',
                 title = ''Carrington Event'', short_description = ''x'', summary = ''y'',
                 impact_on_communication = ''z''\<rparr>"
  let ?ms = "\<lparr>eventTriedSubmit = False,
            eventErrors = \<lparr>err_date = [], err_event_type = [], err_location = [], err_title = [],
                           err_short_description = [], err_summary = [],
                           err_impact_on_communication = []\<rparr>,
            captionEditing = False, captionDraft = []\<rparr>"
  let ?st = "\<lparr>eventModalOpen = True, isCreatingEvent = True, editingEvent = None,
            eventForm = ?form,
            eventMedia = [], eventMediaIndex = 0, createQueuedMedia = [], createMediaIndex = 0,
            eventSaving = False, createMediaUploading = False, createMediaUploadingText = None,
            adminEvents = [], eventsLoading = False, eventsError = [], alerts = [],
            revoked = []\<rparr>"
  have d: "\<not> isValidDate (date (eventForm ?st))"
    by (simp add: isValidDate_def js_trim_def is_space_def)
  have l: "js_trim (location (eventForm ?st)) = []"
    by (simp add: js_trim_def is_space_def)
  have t: "js_trim (title (eventForm ?st)) \<noteq> []"
    by (simp add: js_trim_def is_space_def)
  from d have h: "\<not> isValidDate (date (eventForm ?st)) \<or> js_trim (event_type (eventForm ?st)) = [] \<or>
           js_trim (location (eventForm ?st)) = [] \<or> js_trim (title (eventForm ?st)) = [] \<or>
           js_trim (short_description (eventForm ?st)) = [] \<or>
           js_trim (summary (eventForm ?st)) = [] \<or>
           js_trim (impact_on_communication (eventForm ?st)) = []"
    by blast
  from invalid_form_blocks_save [OF h, where answers = "[]" and ms = ?ms] d l t
  show ?thesis
    by (cases "save_click ?ms ?st") auto
qed

subsection \<open>Caption editing when the displayed item changes\<close>

lemma rerender_resets_when_id_changes:
  assumes "effect_dep (currentMedia media mediaIndex) \<noteq> effect_dep (currentMedia prevMedia prevIndex)"
  shows "captionEditing (rerender prevMedia prevIndex media mediaIndex ms) = False \<and>
         captionDraft (rerender prevMedia prevIndex media mediaIndex ms) =
           or_empty (case currentMedia media mediaIndex of None \<Rightarrow> None | Some m \<Rightarrow> caption m)"
  using assms by (simp add: rerender_def caption_reset_effect_def)

text \<open>
  Claim C4 says that a change of the displayed item always resets the caption edit. The
  effect depends on \<open>currentMedia?.id\<close>, and queued items (create mode) have no \<open>id\<close>: with
  two queued items A and B, item A displayed and its caption being edited, moving to
  item B displays a different item but runs no effect; the editing flag stays true and
  the draft still holds the text typed for A.
\<close>

theorem caption_edit_survives_switch_in_create_mode:
  "currentMedia
     [\<lparr>m_id = None, localId = Some ''local-1'', m_url = None, previewUrl = Some ''blob:a'',
       m_file = Some ''a.png'', caption = Some ''A''\<rparr>,
      \<lparr>m_id = None, localId = Some ''local-2'', m_url = None, previewUrl = Some ''blob:b'',
       m_file = Some ''b.png'', caption = Some ''B''\<rparr>] 0
   \<noteq> currentMedia
     [\<lparr>m_id = None, localId = Some ''local-1'', m_url = None, previewUrl = Some ''blob:a'',
       m_file = Some ''a.png'', caption = Some ''A''\<rparr>,
      \<lparr>m_id = None, localId = Some ''local-2'', m_url = None, previewUrl = Some ''blob:b'',
       m_file = Some ''b.png'', caption = Some ''B''\<rparr>] 1 \<and>
   rerender
     [\<lparr>m_id = None, localId = Some ''local-1'', m_url = None, previewUrl = Some ''blob:a'',
       m_file = Some ''a.png'', caption = Some ''A''\<rparr>,
      \<lparr>m_id = None, localId = Some ''local-2'', m_url = None, previewUrl = Some ''blob:b'',
       m_file = Some ''b.png'', caption = Some ''B''\<rparr>] 0
     [\<lparr>m_id = None, localId = Some ''local-1'', m_url = None, previewUrl = Some ''blob:a'',
       m_file = Some ''a.png'', caption = Some ''A''\<rparr>,
      \<lparr>m_id = None, localId = Some ''local-2'', m_url = None, previewUrl = Some ''blob:b'',
       m_file = Some ''b.png'', caption = Some ''B''\<rparr>] 1
     \<lparr>eventTriedSubmit = False,
      eventErrors = \<lparr>err_date = [], err_event_type = [], err_location = [], err_title = [],
                     err_short_description = [], err_summary = [],
                     err_impact_on_communication = []\<rparr>,
      captionEditing = True, captionDraft = ''A, edited''\<rparr>
   = \<lparr>eventTriedSubmit = False,
      eventErrors = \<lparr>err_date = [], err_event_type = [], err_location = [], err_title = [],
                     err_short_description = [], err_summary = [],
                     err_impact_on_communication = []\<rparr>,
      captionEditing = True, captionDraft = ''A, edited''\<rparr>"
  by (simp add: rerender_def currentMedia_def safeIndex_def effect_dep_def)

subsection \<open>Saving in create mode\<close>


lemma last_dropWhile_nonempty:
  "dropWhile P xs \<noteq> [] \<Longrightarrow> last (dropWhile P xs) = last xs"
  by (induction xs) (auto split: if_splits)

lemma js_trim_ends:
  assumes "js_trim s \<noteq> []"
  shows "\<not> is_space (hd (js_trim s)) \<and> \<not> is_space (last (js_trim s))"
proof -
  let ?u = "dropWhile is_space s"
  let ?v = "dropWhile is_space (rev ?u)"
  from assms have v: "?v \<noteq> []" by (simp add: js_trim_def)
  have u: "?u \<noteq> []"
  proof
    assume e: "?u = []"
    have "?v = []" unfolding e by simp
    with v show False by blast
  qed
  have 1: "\<not> is_space (hd ?v)" using v by (rule hd_dropWhile)
  have "last ?v = last (rev ?u)" using v by (rule last_dropWhile_nonempty)
  also have "\<dots> = hd ?u" using u by (simp add: last_rev)
  finally have 2: "\<not> is_space (last ?v)" using hd_dropWhile [OF u] by simp
  have "hd (js_trim s) = last ?v" "last (js_trim s) = hd ?v"
    using v by (simp_all add: js_trim_def hd_rev last_rev)
  with 1 2 show ?thesis by simp
qed

lemma js_trim_idem: "js_trim (js_trim s) = js_trim s"
proof (cases "js_trim s = []")
  case True
  have "js_trim [] = []" by (simp add: js_trim_def)
  with True show ?thesis by simp
next
  case False
  with js_trim_ends [OF False] show ?thesis by (intro trim_no_space) simp_all
qed

lemma js_trim_nonempty_arg: "js_trim s \<noteq> [] \<Longrightarrow> s \<noteq> []"
  by (auto simp: js_trim_def)

lemma iso_pattern_nonempty: "iso_pattern s \<Longrightarrow> s \<noteq> []"
  by (erule iso_pattern_chars) simp

lemma valid_form_not_missing:
  assumes "date_pattern (date form)"
    and "js_trim (event_type form) \<noteq> []" and "js_trim (location form) \<noteq> []"
    and "js_trim (title form) \<noteq> []" and "js_trim (short_description form) \<noteq> []"
    and "js_trim (summary form) \<noteq> []" and "js_trim (impact_on_communication form) \<noteq> []"
  shows "\<not> missing (build_payload form)" and "snd (validateEventForm form)"
proof -
  from display_to_storage [OF assms(1)] obtain s where
    s: "isoDate (date form) = Some s" "iso_pattern s" by blast
  then have d: "truthy (isoDate (date form))"
    by (simp add: truthy_def iso_pattern_nonempty)
  have t: "or_empty (or_null (Some (event_type form))) = event_type form"
    using js_trim_nonempty_arg [OF assms(2)] by (simp add: or_null_def truthy_def or_empty_def)
  show "\<not> missing (build_payload form)"
    using d t assms(2-7) by (simp add: missing_def build_payload_def or_empty_def js_trim_idem)
  show "snd (validateEventForm form)"
    unfolding validate_ok_iff isValidDate_def
    using assms by (simp add: date_pattern_trim)
qed

lemma run_proc_bind_Done: "run (proc_bind p (\<lambda>x. Done (f x))) rs =
   (case run p rs of (qs, a) \<Rightarrow> (qs, map_option f a))"
proof (induction p rs rule: run.induct)
  case (1 a rs)
  then show ?case by simp
next
  case (2 q k)
  then show ?case by simp
next
  case (3 q k r rs)
  then show ?case by (simp split: prod.splits)
qed

lemma run_refresh_and_close:
  "run (refresh_and_close closure st) [r1, r2] =
     ([GetAdminEvents, GetAdminEvents],
      Some (None, closeEventModal closure
         (events_loaded r2 ((events_loaded r1 (st\<lparr>eventsLoading := True, eventsError := []\<rparr>))
              \<lparr>eventsLoading := True, eventsError := []\<rparr>))))"
  by (simp add: refresh_and_close_def loadAdminEvents_def)

lemma run_upload_loop:
  assumes "length ups = length ms" and "\<forall>u\<in>set ups. res_ok u"
  shows "run (upload_loop createdId n ms i k st) (map Resolved ups @ rest) =
     (case run (k (uploaded_all n ms i st)) rest of
        (qs, a) \<Rightarrow> (map (upload_request createdId) ms @ qs, a))"
  using assms
proof (induction ms arbitrary: ups i st)
  case Nil
  then show ?case by (simp split: prod.splits)
next
  case (Cons m ms)
  from Cons.prems obtain u us where ups: "ups = u # us" "length us = length ms"
    "res_ok u" "\<forall>u\<in>set us. res_ok u"
    by (cases ups) auto
  show ?case
    unfolding ups using ups(3) Cons.IH [OF ups(2) ups(4)]
    by (simp split: prod.splits)
qed

lemma run_prefix:
  assumes "run p rs = (qs, Some a)" and "length qs = length rs" and "j < length rs"
  shows "run p (take j rs) = (take (Suc j) qs, None)"
  using assms
proof (induction p rs arbitrary: qs j rule: run.induct)
  case (1 a rs)
  then show ?case by simp
next
  case (2 q k)
  then show ?case by simp
next
  case (3 q k r rs)
  obtain qs' a' where r: "run (k r) rs = (qs', a')" by (cases "run (k r) rs")
  with "3.prems" have qs: "qs = q # qs'" and a': "a' = Some a" and len: "length qs' = length rs"
    by auto
  show ?case
  proof (cases j)
    case 0
    then show ?thesis by (simp add: qs)
  next
    case (Suc j')
    with "3.prems" have "j' < length rs" by simp
    from "3.IH" [OF r [unfolded a'] len this]
    show ?thesis by (simp add: Suc qs)
  qed
qed


lemma alerts_uploaded_all: "alerts (uploaded_all n ms i st) = alerts st"
  by (induction ms arbitrary: i st) (simp_all add: uploaded_one_def Let_def)

lemma closed_state_facts:
  "eventModalOpen (save_finally (None, closeEventModal closure x)) = False"
  "eventSaving (save_finally (None, closeEventModal closure x)) = False"
  "createQueuedMedia (save_finally (None, closeEventModal closure x)) = []"
  "alerts (save_finally (None, closeEventModal closure x)) = alerts x"
  "adminEvents (save_finally (None, closeEventModal closure x)) = adminEvents x"
  by (simp_all add: save_finally_def closeEventModal_def)

lemma events_loaded_facts:
  "alerts (events_loaded r x) = alerts x"
  "res_ok res \<Longrightarrow> adminEvents (events_loaded (Resolved res) x) =
      (case res_rows res of Some rows \<Rightarrow> rows | None \<Rightarrow> [])"
  by (simp_all add: events_loaded_def Let_def split: fetch_result.splits)

lemma run_save_try_create:
  assumes "isCreatingEvent closure"
    and "res_ok created" and "res_id created = Some createdId" and "createdId \<noteq> 0"
    and "length ups = length (createQueuedMedia closure)" and "\<forall>u\<in>set ups. res_ok u"
  shows "\<exists>x. run (save_try payload closure st) (Resolved created # map Resolved ups @ [r1, r2]) =
           (PostEvent payload # map (upload_request createdId) (createQueuedMedia closure) @
              [GetAdminEvents, GetAdminEvents],
            Some (None, closeEventModal closure (events_loaded r2 x))) \<and> alerts x = alerts st"
proof (cases "createQueuedMedia closure = []")
  case True
  with assms(5) have ups: "ups = []" by simp
  let ?x = "(events_loaded r1 (st\<lparr>eventsLoading := True, eventsError := []\<rparr>))
              \<lparr>eventsLoading := True, eventsError := []\<rparr>"
  have "run (save_try payload closure st) (Resolved created # map Resolved ups @ [r1, r2]) =
           (PostEvent payload # map (upload_request createdId) (createQueuedMedia closure) @
              [GetAdminEvents, GetAdminEvents],
            Some (None, closeEventModal closure (events_loaded r2 ?x)))"
    using assms(1-4) True
    by (simp add: save_try_def ups id_or_null_def run_refresh_and_close)
  moreover have "alerts ?x = alerts st"
    by (simp add: events_loaded_facts)
  ultimately show ?thesis by blast
next
  case False
  let ?n = "length (createQueuedMedia closure)"
  let ?k = "\<lambda>st. refresh_and_close closure
              (st\<lparr>createQueuedMedia := [], createMediaIndex := 0,
                  createMediaUploading := False, createMediaUploadingText := None\<rparr>)"
  let ?u = "uploaded_all ?n (createQueuedMedia closure) 0 (st\<lparr>createMediaUploading := True\<rparr>)"
  have loop: "run (upload_loop createdId ?n (createQueuedMedia closure) 0 ?k
                    (st\<lparr>createMediaUploading := True\<rparr>)) (map Resolved ups @ [r1, r2]) =
      (map (upload_request createdId) (createQueuedMedia closure) @ [GetAdminEvents, GetAdminEvents],
       Some (None, closeEventModal closure
         (events_loaded r2 ((events_loaded r1
             (?u\<lparr>createQueuedMedia := [], createMediaIndex := 0,
                 createMediaUploading := False, createMediaUploadingText := None,
                 eventsLoading := True, eventsError := []\<rparr>))
              \<lparr>eventsLoading := True, eventsError := []\<rparr>))))"
    unfolding run_upload_loop [OF assms(5,6)] run_refresh_and_close by simp
  have al: "alerts ((events_loaded r1
             (?u\<lparr>createQueuedMedia := [], createMediaIndex := 0,
                 createMediaUploading := False, createMediaUploadingText := None,
                 eventsLoading := True, eventsError := []\<rparr>))
              \<lparr>eventsLoading := True, eventsError := []\<rparr>) = alerts st"
    by (simp add: events_loaded_facts alerts_uploaded_all)
  have "run (save_try payload closure st) (Resolved created # map Resolved ups @ [r1, r2]) =
      (PostEvent payload # map (upload_request createdId) (createQueuedMedia closure) @
              [GetAdminEvents, GetAdminEvents],
       Some (None, closeEventModal closure
         (events_loaded r2 ((events_loaded r1
             (?u\<lparr>createQueuedMedia := [], createMediaIndex := 0,
                 createMediaUploading := False, createMediaUploadingText := None,
                 eventsLoading := True, eventsError := []\<rparr>))
              \<lparr>eventsLoading := True, eventsError := []\<rparr>))))"
    using assms(1-4) False loop by (simp add: save_try_def id_or_null_def)
  with al show ?thesis by blast
qed


text \<open>
  In create mode the date of the form is only written by the date input shaping, starting
  from the empty string, so it consists of digits and slashes; on such a value the
  modal's \<open>isValidDate\<close> (which trims) and the pattern itself agree.
\<close>

lemma shaped_segment_date:
  assumes "\<forall>c\<in>set d. is_digit c"
  shows "\<forall>c\<in>set (segment_date d). is_digit c \<or> c = CHR ''/''"
  using assms
  by (auto simp: segment_date_def js_slice_def Let_def dest!: in_set_takeD in_set_dropD)

lemma shaped_handleDateInputChange:
  assumes "\<forall>c\<in>set previous. is_digit c \<or> c = CHR ''/''"
  shows "\<forall>c\<in>set (handleDateInputChange previous raw). is_digit c \<or> c = CHR ''/''"
proof (cases "8 \<le> length (digits_of previous) \<and> length (digits_of previous) < length (digits_of raw)")
  case True
  then show ?thesis using assms by (simp add: handleDateInputChange_reject)
next
  case False
  show ?thesis
    unfolding handleDateInputChange_accept [OF False]
    by (rule shaped_segment_date [OF take8_digits])
qed

lemma shaped_isValidDate:
  assumes "\<forall>c\<in>set d. is_digit c \<or> c = CHR ''/''"
  shows "isValidDate d = date_pattern d"
proof (cases "d = []")
  case True
  then show ?thesis by (simp add: isValidDate_def js_trim_def)
next
  case False
  have ns: "\<not> is_space c" if "c \<in> set d" for c
  proof -
    from assms that have "is_digit c \<or> c = CHR ''/''" by blast
    then show ?thesis
    proof
      assume "is_digit c"
      then show ?thesis by (rule digit_not_space)
    next
      assume "c = CHR ''/''"
      then show ?thesis by (simp add: is_space_def)
    qed
  qed
  from False have "hd d \<in> set d" "last d \<in> set d" by simp_all
  then have "js_trim d = d"
    using False by (intro trim_no_space) (simp_all add: ns)
  then show ?thesis by (simp add: isValidDate_def)
qed

text \<open>
  Claim C1. In create mode, a click on Save with all seven fields valid (the date matches
  the pattern, the six texts are non-empty after trimming), answered by a successful
  create with a non-zero id and by successful uploads, issues exactly these calls in this
  order: one create call with the payload of the form, one upload call per queued item
  in the order of the queue, and the refresh of the event list (\<open>loadAdminEvents\<close>, which
  the code calls twice). The process then ends with the editor closed, the queue empty
  and no alert; the event list holds the rows of the last refresh when that succeeded.
  The calls are sequential: while only \<open>j\<close> answers have arrived, exactly the first \<open>j + 1\<close>
  calls have been issued and the process is waiting, so upload \<open>i + 1\<close> starts only after
  upload \<open>i\<close> was answered.
\<close>

theorem create_save_calls_in_order:
  assumes "isCreatingEvent st"
    and "date_pattern (date (eventForm st))"
    and "js_trim (event_type (eventForm st)) \<noteq> []"
    and "js_trim (location (eventForm st)) \<noteq> []"
    and "js_trim (title (eventForm st)) \<noteq> []"
    and "js_trim (short_description (eventForm st)) \<noteq> []"
    and "js_trim (summary (eventForm st)) \<noteq> []"
    and "js_trim (impact_on_communication (eventForm st)) \<noteq> []"
    and "res_ok created" and "res_id created = Some createdId" and "createdId \<noteq> 0"
    and "length ups = length (createQueuedMedia st)" and "\<forall>u\<in>set ups. res_ok u"
  shows "(let answers = Resolved created # map Resolved ups @ [r1, r2];
              calls = PostEvent (build_payload (eventForm st)) #
                      map (upload_request createdId) (createQueuedMedia st) @
                      [GetAdminEvents, GetAdminEvents];
              p = snd (save_click ms st)
          in (\<exists>st'. run p answers = (calls, Some st') \<and>
                    \<not> eventModalOpen st' \<and> \<not> eventSaving st' \<and> createQueuedMedia st' = [] \<and>
                    alerts st' = alerts st \<and>
                    (\<forall>res. r2 = Resolved res \<and> res_ok res \<longrightarrow>
                       adminEvents st' = (case res_rows res of Some rows \<Rightarrow> rows | None \<Rightarrow> []))) \<and>
             (\<forall>j < length answers. run p (take j answers) = (take (Suc j) calls, None)))"
proof -
  let ?answers = "Resolved created # map Resolved ups @ [r1, r2]"
  let ?calls = "PostEvent (build_payload (eventForm st)) #
                      map (upload_request createdId) (createQueuedMedia st) @
                      [GetAdminEvents, GetAdminEvents]"
  note v = valid_form_not_missing [OF assms(2-8)]
  have p: "snd (save_click ms st) =
      proc_bind (save_try (build_payload (eventForm st)) st (st\<lparr>eventSaving := True\<rparr>))
        (\<lambda>res. Done (save_finally res))"
    using v by (simp add: save_click_eq handleSaveEvent_def Let_def)
  from run_save_try_create [OF assms(1) assms(9-13), of "build_payload (eventForm st)"
      "st\<lparr>eventSaving := True\<rparr>" r1 r2]
  obtain x where x: "run (save_try (build_payload (eventForm st)) st (st\<lparr>eventSaving := True\<rparr>))
        ?answers = (?calls, Some (None, closeEventModal st (events_loaded r2 x)))"
    and ax: "alerts x = alerts st"
    by auto
  let ?st' = "save_finally (None, closeEventModal st (events_loaded r2 x))"
  have run: "run (snd (save_click ms st)) ?answers = (?calls, Some ?st')"
    unfolding p run_proc_bind_Done x by simp
  have len: "length ?calls = length ?answers"
    using assms(12) by simp
  have pre: "run (snd (save_click ms st)) (take j ?answers) = (take (Suc j) ?calls, None)"
    if "j < length ?answers" for j
    by (rule run_prefix [OF run len that])
  have facts: "\<not> eventModalOpen ?st'" "\<not> eventSaving ?st'" "createQueuedMedia ?st' = []"
    "alerts ?st' = alerts st"
    by (simp_all add: closed_state_facts events_loaded_facts ax)
  have rows: "adminEvents ?st' = (case res_rows res of Some rows \<Rightarrow> rows | None \<Rightarrow> [])"
    if "r2 = Resolved res \<and> res_ok res" for res
    using that by (simp add: closed_state_facts events_loaded_facts)
  show ?thesis
    unfolding Let_def using run pre facts rows by blast
qed

lemma trim_examples:
  "js_trim ''Geomagnetic Storm'' = ''Geomagnetic Storm''" "js_trim ''Worldwide'' = ''Worldwide''"
  "js_trim ''Carrington Event'' = ''Carrington Event''" "js_trim ''Aurorae'' = ''Aurorae''"
  "js_trim ''Largest storm on record'' = ''Largest storm on record''"
  "js_trim ''Telegraph lines failed'' = ''Telegraph lines failed''"
  "js_trim ''A'' = ''A''" "js_trim '' B '' = ''B''"
  by (simp_all add: js_trim_def is_space_def)

lemma isoDate_example: "isoDate ''09/01/1859'' = Some ''1859-09-01''"
  using isoDate_chars [of "CHR ''0''" "CHR ''9''" "CHR ''0''" "CHR ''1''"
        "CHR ''1''" "CHR ''8''" "CHR ''5''" "CHR ''9''"]
  by (simp add: is_digit_def)

theorem create_save_calls_in_order_witness:
  "(let form = \<lparr>date = ''09/01/1859'', event_type = ''Geomagnetic Storm'', location = ''Worldwide'',
                 title = ''Carrington Event'', short_description = ''Aurorae'',
                 summary = ''Largest storm on record'',
                 impact_on_communication = ''Telegraph lines failed''\<rparr>;
        a = \<lparr>m_id = None, localId = Some ''local-1'', m_url = None, previewUrl = Some ''blob:a'',
              m_file = Some ''a.png'', caption = Some ''A''\<rparr>;
        b = \<lparr>m_id = None, localId = Some ''local-2'', m_url = None, previewUrl = Some ''blob:b'',
              m_file = Some ''b.png'', caption = Some '' B ''\<rparr>;
        st = \<lparr>eventModalOpen = True, isCreatingEvent = True, editingEvent = None,
               eventForm = form, eventMedia = [], eventMediaIndex = 0,
               createQueuedMedia = [a, b], createMediaIndex = 1,
               eventSaving = False, createMediaUploading = False,
               createMediaUploadingText = None, adminEvents = [], eventsLoading = False,
               eventsError = [], alerts = [], revoked = []\<rparr>;
        ms = \<lparr>eventTriedSubmit = False,
               eventErrors = \<lparr>err_date = [], err_event_type = [], err_location = [],
                              err_title = [], err_short_description = [], err_summary = [],
                              err_impact_on_communication = []\<rparr>,
               captionEditing = False, captionDraft = []\<rparr>;
        ok = \<lparr>res_ok = True, res_status = 201, res_id = Some 5, res_text = None,
               res_rows = None\<rparr>;
        answers = [Resolved ok, Resolved ok, Resolved ok, Resolved ok, Resolved ok];
        payload = \<lparr>p_event_date = Some ''1859-09-01'', p_event_type = Some ''Geomagnetic Storm'',
                    p_location = Some ''Worldwide'', p_title = Some ''Carrington Event'',
                    p_short_description = Some ''Aurorae'',
                    p_summary = Some ''Largest storm on record'',
                    p_impact_on_communication = Some ''Telegraph lines failed''\<rparr>
    in fst (run (snd (save_click ms st)) answers) =
         [PostEvent payload, PostEventMedia 5 (Some ''a.png'') ''A'',
          PostEventMedia 5 (Some ''b.png'') ''B'', GetAdminEvents, GetAdminEvents] \<and>
       map_option eventModalOpen (snd (run (snd (save_click ms st)) answers)) = Some False \<and>
       run (snd (save_click ms st)) (take 2 answers) =
         ([PostEvent payload, PostEventMedia 5 (Some ''a.png'') ''A'',
           PostEventMedia 5 (Some ''b.png'') ''B''], None))"
proof -
  let ?form = "\<lparr>date = ''09/01/1859'', event_type = ''Geomagnetic Storm'', location = ''Worldwide'',
                 title = ''Carrington Event'', short_description = ''Aurorae'',
                 summary = ''Largest storm on record'',
                 impact_on_communication = ''Telegraph lines failed''\<rparr>"
  let ?a = "\<lparr>m_id = None, localId = Some ''local-1'', m_url = None, previewUrl = Some ''blob:a'',
              m_file = Some ''a.png'', caption = Some ''A''\<rparr>"
  let ?b = "\<lparr>m_id = None, localId = Some ''local-2'', m_url = None, previewUrl = Some ''blob:b'',
              m_file = Some ''b.png'', caption = Some '' B ''\<rparr>"
  let ?st = "\<lparr>eventModalOpen = True, isCreatingEvent = True, editingEvent = None,
               eventForm = ?form, eventMedia = [], eventMediaIndex = 0,
               createQueuedMedia = [?a, ?b], createMediaIndex = 1,
               eventSaving = False, createMediaUploading = False,
               createMediaUploadingText = None, adminEvents = [], eventsLoading = False,
               eventsError = [], alerts = [], revoked = []\<rparr>"
  let ?ms = "\<lparr>eventTriedSubmit = False,
               eventErrors = \<lparr>err_date = [], err_event_type = [], err_location = [],
                              err_title = [], err_short_description = [], err_summary = [],
                              err_impact_on_communication = []\<rparr>,
               captionEditing = False, captionDraft = []\<rparr>"
  let ?ok = "\<lparr>res_ok = True, res_status = 201, res_id = Some 5, res_text = None,
               res_rows = None\<rparr>"
  have h: "isCreatingEvent ?st" "date_pattern (date (eventForm ?st))"
    "js_trim (event_type (eventForm ?st)) \<noteq> []" "js_trim (location (eventForm ?st)) \<noteq> []"
    "js_trim (title (eventForm ?st)) \<noteq> []" "js_trim (short_description (eventForm ?st)) \<noteq> []"
    "js_trim (summary (eventForm ?st)) \<noteq> []"
    "js_trim (impact_on_communication (eventForm ?st)) \<noteq> []"
    "res_ok ?ok" "res_id ?ok = Some 5" "(5::nat) \<noteq> 0"
    "length [?ok, ?ok] = length (createQueuedMedia ?st)" "\<forall>u\<in>set [?ok, ?ok]. res_ok u"
    by (simp_all add: trim_examples is_digit_def)
  have calls: "PostEvent (build_payload (eventForm ?st)) #
        map (upload_request 5) (createQueuedMedia ?st) @ [GetAdminEvents, GetAdminEvents] =
      [PostEvent \<lparr>p_event_date = Some ''1859-09-01'', p_event_type = Some ''Geomagnetic Storm'',
                    p_location = Some ''Worldwide'', p_title = Some ''Carrington Event'',
                    p_short_description = Some ''Aurorae'',
                    p_summary = Some ''Largest storm on record'',
                    p_impact_on_communication = Some ''Telegraph lines failed''\<rparr>,
       PostEventMedia 5 (Some ''a.png'') ''A'', PostEventMedia 5 (Some ''b.png'') ''B'',
       GetAdminEvents, GetAdminEvents]"
    by (simp add: build_payload_def upload_request_def isoDate_example trim_examples
        or_null_def truthy_def or_empty_def)
  note T = create_save_calls_in_order [OF h, where ms = ?ms and ?r1.0 = "Resolved ?ok"
      and ?r2.0 = "Resolved ?ok", unfolded Let_def calls]
  from T obtain st' where
    r: "run (snd (save_click ?ms ?st)) [Resolved ?ok, Resolved ?ok, Resolved ?ok, Resolved ?ok, Resolved ?ok]
          = ([PostEvent \<lparr>p_event_date = Some ''1859-09-01'', p_event_type = Some ''Geomagnetic Storm'',
                    p_location = Some ''Worldwide'', p_title = Some ''Carrington Event'',
                    p_short_description = Some ''Aurorae'',
                    p_summary = Some ''Largest storm on record'',
                    p_impact_on_communication = Some ''Telegraph lines failed''\<rparr>,
               PostEventMedia 5 (Some ''a.png'') ''A'', PostEventMedia 5 (Some ''b.png'') ''B'',
               GetAdminEvents, GetAdminEvents], Some st')"
    and c: "\<not> eventModalOpen st'"
    by auto
  from T [THEN conjunct2, rule_format, of 2] have pre: "run (snd (save_click ?ms ?st))
        (take 2 [Resolved ?ok, Resolved ?ok, Resolved ?ok, Resolved ?ok, Resolved ?ok]) =
      (take (Suc 2) [PostEvent \<lparr>p_event_date = Some ''1859-09-01'', p_event_type = Some ''Geomagnetic Storm'',
                    p_location = Some ''Worldwide'', p_title = Some ''Carrington Event'',
                    p_short_description = Some ''Aurorae'',
                    p_summary = Some ''Largest storm on record'',
                    p_impact_on_communication = Some ''Telegraph lines failed''\<rparr>,
               PostEventMedia 5 (Some ''a.png'') ''A'', PostEventMedia 5 (Some ''b.png'') ''B'',
               GetAdminEvents, GetAdminEvents], None)"
    by simp
  show ?thesis
    unfolding Let_def using r c pre by simp
qed

end
